theory Spec2Isabelle
  imports Complex_Main "HOL-Library.Extended_Nat" "HOL-Library.Option_ord"
begin

section \<open>Decimal arithmetic\<close>

text \<open>
  Quantities of the simulator are \<^verbatim>\<open>Decimal\<close> values: \<^verbatim>\<open>getDecimal()\<close> returns
  \<^verbatim>\<open>window.Decimal\<close>, the constructor of decimal.js, which the source never configures, so
  it works with its defaults of 20 significant digits and rounding half away from zero. A
  \<^verbatim>\<open>Decimal\<close> is modelled as the real number it denotes. The methods \<^verbatim>\<open>plus\<close>, \<^verbatim>\<open>minus\<close>,
  \<^verbatim>\<open>times\<close> and \<^verbatim>\<open>dividedBy\<close> round their exact result to 20 significant digits:
  \<open>dround\<close> is that rounding, with \<open>sigExp x\<close> the decimal exponent of the leading digit of
  \<open>x\<close>, and \<open>dplus\<close>, \<open>dminus\<close>, \<open>dtimes\<close>, \<open>ddiv\<close> are the four methods. The constructor,
  \<^verbatim>\<open>abs\<close>, \<^verbatim>\<open>isZero\<close> and the comparisons do not round.

  The swap computations (\<^verbatim>\<open>calculateSwapOutput\<close>, \<^verbatim>\<open>calculatePriceImpact\<close>, \<^verbatim>\<open>executeBuy\<close>,
  \<^verbatim>\<open>simulateSwap\<close>, \<^verbatim>\<open>calculatePathOutput\<close>) are modelled with the rounded methods: what
  is stated about them below depends on the last digit. Price resolution, liquidity
  provision, route execution and the capital analysis are modelled in exact arithmetic;
  the statements about them are about which values are combined and which fields are
  written, and the inputs of their examples are short decimals on which no method rounds.
  The non-finite values of decimal.js are not modelled (a quotient by zero is \<open>0\<close> in HOL,
  \<^verbatim>\<open>Infinity\<close> or \<^verbatim>\<open>NaN\<close> in decimal.js), nor is its exponent limit. Every statement below
  that depends on a quotient either has, or establishes, a nonzero divisor.
\<close>

definition sigExp :: "real \<Rightarrow> int" where
  "sigExp x = \<lfloor>log 10 \<bar>x\<bar>\<rfloor>"

definition dround :: "real \<Rightarrow> real" where
  "dround x =
    (if x = 0 then 0
     else sgn x * real_of_int \<lfloor>\<bar>x\<bar> * 10 powr real_of_int (19 - sigExp x) + 1 / 2\<rfloor>
            / 10 powr real_of_int (19 - sigExp x))"

definition dplus :: "real \<Rightarrow> real \<Rightarrow> real" where
  "dplus x y = dround (x + y)"

definition dminus :: "real \<Rightarrow> real \<Rightarrow> real" where
  "dminus x y = dround (x - y)"

definition dtimes :: "real \<Rightarrow> real \<Rightarrow> real" where
  "dtimes x y = dround (x * y)"

definition ddiv :: "real \<Rightarrow> real \<Rightarrow> real" where
  "ddiv x y = dround (x / y)"

section \<open>Data model\<close>

text \<open>
  Token objects live in the array \<^verbatim>\<open>state.tokens\<close>; a reference to a token object is
  modelled as its position in that array, and a field write as a list update at that
  position. \<^verbatim>\<open>Date.now()\<close> is a parameter \<open>now\<close> (milliseconds), read once per top-level
  operation. A token's \<^verbatim>\<open>id\<close> is the field \<open>tokenId\<close>; its display name, its page
  element and the fields of the older percentage-based interface are not modelled.
\<close>

datatype pair_type = USD | WPLS | TOKEN

record token =
  tokenId :: nat
  totalSupply :: real
  totalLiquidity :: real
  plsBalance :: real
  pairType :: pair_type
  pairedTokenId :: "nat option"
  tokenReserve :: real
  pairReserve :: real
  lpTotalSupply :: real
  k :: real
  cachedUSDPrice :: real
  priceLastUpdated :: int

datatype capital_mode = Market | Backing

record global_state =
  tokens :: "token list"
  plsPrice :: real
  maxRoutingHops :: nat
  applySlippage :: bool
  capitalCalculationMode :: capital_mode

text \<open>\<^verbatim>\<open>Array.prototype.find\<close> by a predicate, returning the position of the first match.\<close>

fun findIndex :: "('a \<Rightarrow> bool) \<Rightarrow> 'a list \<Rightarrow> nat option" where
  "findIndex P [] = None"
| "findIndex P (x # xs) = (if P x then Some 0 else map_option Suc (findIndex P xs))"

text \<open>\<^verbatim>\<open>state.tokens.find(t => t.id === id)\<close>; a \<^verbatim>\<open>null\<close> id matches no token.\<close>

definition findToken :: "token list \<Rightarrow> nat option \<Rightarrow> nat option" where
  "findToken ts pid = (case pid of None \<Rightarrow> None | Some p \<Rightarrow> findIndex (\<lambda>t. tokenId t = p) ts)"

text \<open>JavaScript truthiness of \<^verbatim>\<open>pairedTokenId\<close>: \<^verbatim>\<open>null\<close> and \<^verbatim>\<open>0\<close> are falsy.\<close>

definition truthy :: "nat option \<Rightarrow> bool" where
  "truthy pid = (case pid of None \<Rightarrow> False | Some p \<Rightarrow> p \<noteq> 0)"

section \<open>Price resolution\<close>

definition setCache :: "real \<Rightarrow> int \<Rightarrow> token \<Rightarrow> token" where
  "setCache p now t = t\<lparr>cachedUSDPrice := p, priceLastUpdated := now\<rparr>"

text \<open>
  \<^verbatim>\<open>Token.calculateTokenPriceUSD(visited)\<close> on the token at position \<open>i\<close>. The result is
  the returned price, the token array with the updated price caches, and the updated
  \<open>visited\<close> set (the JavaScript \<^verbatim>\<open>Set\<close> is shared with the caller and mutated in place).
  Two further components are ghost values that the source does not compute: the number
  of invocations of the method made by this call (itself included), and whether the
  circular-dependency branch was taken somewhere below. A position outside the array
  does not arise in the source (a reference always points to an object); the model leaves
  the state unchanged there.
\<close>

function calculateTokenPriceUSD ::
  "int \<Rightarrow> real \<Rightarrow> token list \<Rightarrow> nat set \<Rightarrow> nat \<Rightarrow> real \<times> token list \<times> nat set \<times> nat \<times> bool" where
  "calculateTokenPriceUSD now pls ts visited i =
    (if \<not> i < length ts then (0, ts, visited, 1, False)
     else if tokenId (ts ! i) \<in> visited then (0, ts, visited, 1, True)
     else if now - priceLastUpdated (ts ! i) < 1000 \<and> cachedUSDPrice (ts ! i) \<noteq> 0
       then (cachedUSDPrice (ts ! i), ts, insert (tokenId (ts ! i)) visited, 1, False)
     else if pairReserve (ts ! i) = 0 \<or> tokenReserve (ts ! i) = 0
       then (0, ts[i := setCache 0 now (ts ! i)], insert (tokenId (ts ! i)) visited, 1, False)
     else (case pairType (ts ! i) of
         USD \<Rightarrow>
           (pairReserve (ts ! i) / tokenReserve (ts ! i),
            ts[i := setCache (pairReserve (ts ! i) / tokenReserve (ts ! i)) now (ts ! i)],
            insert (tokenId (ts ! i)) visited, 1, False)
       | WPLS \<Rightarrow>
           (pairReserve (ts ! i) / tokenReserve (ts ! i) * pls,
            ts[i := setCache (pairReserve (ts ! i) / tokenReserve (ts ! i) * pls) now (ts ! i)],
            insert (tokenId (ts ! i)) visited, 1, False)
       | TOKEN \<Rightarrow>
           (case findToken ts (pairedTokenId (ts ! i)) of
              None \<Rightarrow>
                (0, ts[i := setCache 0 now (ts ! i)], insert (tokenId (ts ! i)) visited, 1, False)
            | Some j \<Rightarrow>
                (case calculateTokenPriceUSD now pls ts (insert (tokenId (ts ! i)) visited) j of
                   (pairTokenUSDPrice, ts', visited', calls, revisited) \<Rightarrow>
                     (pairReserve (ts ! i) / tokenReserve (ts ! i) * pairTokenUSDPrice,
                      ts'[i := setCache (pairReserve (ts ! i) / tokenReserve (ts ! i) * pairTokenUSDPrice)
                                 now (ts' ! i)],
                      visited', Suc calls, revisited)))))"
  by pat_completeness auto
termination
proof (relation "measure (\<lambda>(now, pls, ts, visited, i). card (tokenId ` set ts - visited))")
  show "wf (measure (\<lambda>(now, pls, ts, visited, i). card (tokenId ` set ts - visited)))"
    by simp
next
  fix now :: int and pls :: real and ts :: "token list" and visited :: "nat set" and i x2 :: nat
  assume lt: "\<not> \<not> i < length ts" and nv: "tokenId (ts ! i) \<notin> visited"
  have mem: "tokenId (ts ! i) \<in> tokenId ` set ts - visited"
    using lt nv by simp
  have fin: "finite (tokenId ` set ts - visited)"
    by simp
  have eq: "tokenId ` set ts - insert (tokenId (ts ! i)) visited
        = (tokenId ` set ts - visited) - {tokenId (ts ! i)}"
    by blast
  have "card (tokenId ` set ts - insert (tokenId (ts ! i)) visited)
        < card (tokenId ` set ts - visited)"
    unfolding eq using fin mem by (rule card_Diff1_less)
  then show "((now, pls, ts, insert (tokenId (ts ! i)) visited, x2), now, pls, ts, visited, i)
      \<in> measure (\<lambda>(now, pls, ts, visited, i). card (tokenId ` set ts - visited))"
    by simp
qed

text \<open>
  \<^verbatim>\<open>updateAllTokenPrices()\<close>. One \<^verbatim>\<open>visited\<close> set is created at the top and handed to every
  \<^verbatim>\<open>calculateTokenPriceUSD\<close> call of the whole pass. \<open>wplsPass\<close> is the first
  \<^verbatim>\<open>forEach\<close>, over the WPLS-paired tokens; \<open>tokenPass\<close> is the \<^verbatim>\<open>forEach\<close> over the
  token-paired tokens inside the loop, with the flag \<^verbatim>\<open>updated\<close>; \<open>priceLoop\<close> is the
  \<^verbatim>\<open>while\<close> loop, its first argument being \<^verbatim>\<open>maxIterations - iteration\<close>.
\<close>

fun wplsPass :: "int \<Rightarrow> real \<Rightarrow> nat list \<Rightarrow> token list \<Rightarrow> nat set \<Rightarrow> token list \<times> nat set" where
  "wplsPass now pls [] ts visited = (ts, visited)"
| "wplsPass now pls (i # rest) ts visited =
    (case calculateTokenPriceUSD now pls ts visited i of
       (p, ts', visited', calls, revisited) \<Rightarrow> wplsPass now pls rest ts' visited')"

fun tokenPass ::
  "int \<Rightarrow> real \<Rightarrow> nat list \<Rightarrow> token list \<Rightarrow> nat set \<Rightarrow> bool \<Rightarrow> token list \<times> nat set \<times> bool" where
  "tokenPass now pls [] ts visited updated = (ts, visited, updated)"
| "tokenPass now pls (i # rest) ts visited updated =
    (let oldPrice = cachedUSDPrice (ts ! i) in
     case calculateTokenPriceUSD now pls ts visited i of
       (p, ts', visited', calls, revisited) \<Rightarrow>
         tokenPass now pls rest ts' visited'
           (if oldPrice \<noteq> 0
            then (if \<bar>cachedUSDPrice (ts' ! i) - oldPrice\<bar> / oldPrice > 0.0001 then True else updated)
            else if cachedUSDPrice (ts' ! i) \<noteq> 0 then True else updated))"

fun priceLoop :: "nat \<Rightarrow> int \<Rightarrow> real \<Rightarrow> token list \<Rightarrow> nat set \<Rightarrow> bool \<Rightarrow> token list \<times> nat set" where
  "priceLoop 0 now pls ts visited updated = (ts, visited)"
| "priceLoop (Suc n) now pls ts visited updated =
    (if \<not> updated then (ts, visited)
     else (case tokenPass now pls (filter (\<lambda>i. pairType (ts ! i) = TOKEN) [0..<length ts])
                  ts visited False of
             (ts', visited', updated') \<Rightarrow> priceLoop n now pls ts' visited' updated'))"

definition updateAllTokenPrices :: "int \<Rightarrow> global_state \<Rightarrow> global_state" where
  "updateAllTokenPrices now st =
    (case wplsPass now (plsPrice st)
            (filter (\<lambda>i. pairType (tokens st ! i) = WPLS) [0..<length (tokens st)])
            (tokens st) {} of
       (ts1, visited1) \<Rightarrow>
         (case priceLoop 10 now (plsPrice st) ts1 visited1 True of
            (ts2, visited2) \<Rightarrow> st\<lparr>tokens := ts2\<rparr>))"

section \<open>Pool operations\<close>

text \<open>
  The constructor \<^verbatim>\<open>new Token({ id })\<close> with its default supply; the capital-tracking
  fields \<^verbatim>\<open>liquidityDepth\<close>, \<^verbatim>\<open>realCapital\<close> and \<^verbatim>\<open>derivedCapital\<close> are written by an
  asynchronous callback and read only by the display, and are left out.
\<close>

definition newToken :: "nat \<Rightarrow> token" where
  "newToken i = \<lparr>tokenId = i, totalSupply = 1000000, totalLiquidity = 0, plsBalance = 1000000,
     pairType = USD, pairedTokenId = None, tokenReserve = 0, pairReserve = 0,
     lpTotalSupply = 0, k = 0, cachedUSDPrice = 0, priceLastUpdated = 0\<rparr>"

text \<open>
  \<^verbatim>\<open>Token.updateLiquidityDisplay()\<close> writes to the page, which is not modelled, but it also
  evaluates \<^verbatim>\<open>this.calculateTokenPriceUSD()\<close> twice (for the price label and for its log
  line), each time with a fresh \<^verbatim>\<open>visited\<close> set; these calls refresh price caches.
  \<^verbatim>\<open>Token.updateDisplay()\<close> ends by calling it.
\<close>

definition refreshPrice :: "int \<Rightarrow> real \<Rightarrow> token list \<Rightarrow> nat \<Rightarrow> token list" where
  "refreshPrice now pls ts i = fst (snd (calculateTokenPriceUSD now pls ts {} i))"

definition updateLiquidityDisplay :: "int \<Rightarrow> real \<Rightarrow> token list \<Rightarrow> nat \<Rightarrow> token list" where
  "updateLiquidityDisplay now pls ts i = refreshPrice now pls (refreshPrice now pls ts i) i"

definition updateDisplay :: "int \<Rightarrow> real \<Rightarrow> token list \<Rightarrow> nat \<Rightarrow> token list" where
  "updateDisplay now pls ts i = updateLiquidityDisplay now pls ts i"

text \<open>\<^verbatim>\<open>Token.getTokensLockedInOtherPools()\<close> and \<^verbatim>\<open>Token.getAvailableSupply()\<close>.\<close>

definition getTokensLockedInOtherPools :: "token list \<Rightarrow> nat \<Rightarrow> real" where
  "getTokensLockedInOtherPools ts i =
     foldl (\<lambda>lockedAmount otherToken.
              if tokenId otherToken \<noteq> tokenId (ts ! i) \<and> pairType otherToken = TOKEN \<and>
                 pairedTokenId otherToken = Some (tokenId (ts ! i))
              then lockedAmount + pairReserve otherToken else lockedAmount) 0 ts"

definition getAvailableSupply :: "token list \<Rightarrow> nat \<Rightarrow> real" where
  "getAvailableSupply ts i =
     totalSupply (ts ! i) - tokenReserve (ts ! i) - getTokensLockedInOtherPools ts i"

text \<open>
  \<^verbatim>\<open>Token.addLiquidity(tokenAmount, pairAmount)\<close> on the token at position \<open>i\<close>. The source
  alerts and returns \<^verbatim>\<open>false\<close> on rejection; the model names the rejecting check. The
  amounts are taken as already parsed decimals.
\<close>

datatype liquidity_error =
  AmountsNotPositive | InsufficientTokenSupply | RatioMismatch | InsufficientPLS |
  PairedTokenNotFound | InsufficientPairedSupply

definition mintLiquidity :: "int \<Rightarrow> global_state \<Rightarrow> nat \<Rightarrow> real \<Rightarrow> real \<Rightarrow> token \<Rightarrow> global_state" where
  "mintLiquidity now st i tokenToAdd pairToAdd this =
    (let isInitialLiquidity = (pairReserve this = 0 \<and> tokenReserve this = 0);
         lpTokensToMint =
           (if isInitialLiquidity then sqrt (tokenToAdd * pairToAdd)
            else lpTotalSupply this * (tokenToAdd / tokenReserve this));
         this1 = this\<lparr>tokenReserve := tokenReserve this + tokenToAdd,
                       pairReserve := pairReserve this + pairToAdd\<rparr>;
         this2 = this1\<lparr>lpTotalSupply := lpTotalSupply this1 + lpTokensToMint\<rparr>;
         this3 = this2\<lparr>k := tokenReserve this2 * pairReserve this2\<rparr>;
         this4 = this3\<lparr>totalLiquidity := pairReserve this3\<rparr>;
         ts1 = (tokens st)[i := this4];
         ts2 = updateDisplay now (plsPrice st) ts1 i;
         ts3 = updateLiquidityDisplay now (plsPrice st) ts2 i;
         ts4 = ts3[i := (ts3 ! i)\<lparr>priceLastUpdated := 0\<rparr>];
         ts5 = refreshPrice now (plsPrice st) ts4 i
     in st\<lparr>tokens := ts5\<rparr>)"

definition addLiquidity ::
  "int \<Rightarrow> global_state \<Rightarrow> nat \<Rightarrow> real \<Rightarrow> real \<Rightarrow> liquidity_error + global_state" where
  "addLiquidity now st i tokenToAdd pairToAdd =
    (let this = tokens st ! i in
     if tokenToAdd \<le> 0 \<or> pairToAdd \<le> 0 then Inl AmountsNotPositive
     else if tokenToAdd > totalSupply this - tokenReserve this then Inl InsufficientTokenSupply
     else if \<not> (pairReserve this = 0 \<and> tokenReserve this = 0) \<and>
             \<bar>pairReserve this / tokenReserve this - pairToAdd / tokenToAdd\<bar>
               / (pairReserve this / tokenReserve this) > 0.001
       then Inl RatioMismatch
     else (case pairType this of
         WPLS \<Rightarrow>
           if pairToAdd > plsBalance this then Inl InsufficientPLS
           else Inr (mintLiquidity now st i tokenToAdd pairToAdd
                       (this\<lparr>plsBalance := plsBalance this - pairToAdd\<rparr>))
       | TOKEN \<Rightarrow>
           (case findToken (tokens st) (pairedTokenId this) of
              None \<Rightarrow> Inl PairedTokenNotFound
            | Some j \<Rightarrow>
                if pairToAdd > getAvailableSupply (tokens st) j then Inl InsufficientPairedSupply
                else Inr (mintLiquidity now st i tokenToAdd pairToAdd this))
       | USD \<Rightarrow> Inr (mintLiquidity now st i tokenToAdd pairToAdd this)))"

text \<open>\<^verbatim>\<open>Token.calculateSwapOutput\<close> and \<^verbatim>\<open>Token.calculatePriceImpact\<close>.\<close>

definition calculateSwapOutput :: "real \<Rightarrow> real \<Rightarrow> real \<Rightarrow> real \<Rightarrow> real" where
  "calculateSwapOutput inputAmount inputReserve outputReserve feePercent =
    (let fee = ddiv feePercent 100;
         inputWithFee = dtimes inputAmount (dminus 1 fee)
     in ddiv (dtimes outputReserve inputWithFee) (dplus inputReserve inputWithFee))"

definition calculatePriceImpact :: "token \<Rightarrow> real \<Rightarrow> real \<Rightarrow> real" where
  "calculatePriceImpact this amountIn amountOut =
    (let priceBefore = ddiv (pairReserve this) (tokenReserve this);
         priceAfter = ddiv (dplus (pairReserve this) amountIn) (dminus (tokenReserve this) amountOut)
     in dtimes (ddiv (dminus priceAfter priceBefore) priceBefore) 100)"

text \<open>
  \<^verbatim>\<open>Token.executeBuy(pairAmountIn)\<close> on the token at position \<open>i\<close>. A result with
  \<^verbatim>\<open>success: false\<close> is \<open>Inl\<close> of the reason; a successful one is the result object
  (its field \<^verbatim>\<open>priceImpact\<close> is \<open>buyPriceImpact\<close> here) together with the new state.
\<close>

datatype buy_error = AmountNotPositive | NoLiquidity | InsufficientLiquidity

record buy_result =
  tokensReceived :: real
  buyPriceImpact :: real
  slippageApplied :: bool
  newPrice :: real

definition commitBuy ::
  "int \<Rightarrow> global_state \<Rightarrow> nat \<Rightarrow> real \<Rightarrow> real \<Rightarrow> real \<Rightarrow> buy_result \<times> global_state" where
  "commitBuy now st i amountIn tokenOut impact =
    (let this = tokens st ! i;
         this1 = this\<lparr>pairReserve := dplus (pairReserve this) amountIn\<rparr>;
         this2 = this1\<lparr>tokenReserve := dminus (tokenReserve this1) tokenOut\<rparr>;
         this3 = this2\<lparr>k := dtimes (tokenReserve this2) (pairReserve this2)\<rparr>;
         this4 = this3\<lparr>totalLiquidity := pairReserve this3\<rparr>;
         this5 = this4\<lparr>priceLastUpdated := 0\<rparr>;
         ts1 = (tokens st)[i := this5];
         ts2 = updateDisplay now (plsPrice st) ts1 i;
         ts3 = updateLiquidityDisplay now (plsPrice st) ts2 i
     in (case calculateTokenPriceUSD now (plsPrice st) ts3 {} i of
           (usdPrice, ts4, visited', calls, revisited) \<Rightarrow>
             (\<lparr>tokensReceived = tokenOut, buyPriceImpact = impact,
               slippageApplied = applySlippage st, newPrice = usdPrice\<rparr>,
              st\<lparr>tokens := ts4\<rparr>)))"

definition executeBuy ::
  "int \<Rightarrow> global_state \<Rightarrow> nat \<Rightarrow> real \<Rightarrow> buy_error + buy_result \<times> global_state" where
  "executeBuy now st i amountIn =
    (let this = tokens st ! i in
     if amountIn \<le> 0 then Inl AmountNotPositive
     else if pairReserve this = 0 \<or> tokenReserve this = 0 then Inl NoLiquidity
     else if applySlippage st then
       (let tokenOut = calculateSwapOutput amountIn (pairReserve this) (tokenReserve this) 0.3 in
        if tokenOut \<ge> tokenReserve this then Inl InsufficientLiquidity
        else Inr (commitBuy now st i amountIn tokenOut (calculatePriceImpact this amountIn tokenOut)))
     else
       (let currentPrice = ddiv (pairReserve this) (tokenReserve this);
            tokenOut = ddiv amountIn currentPrice in
        if tokenOut \<ge> tokenReserve this then Inl InsufficientLiquidity
        else Inr (commitBuy now st i amountIn tokenOut 0)))"

section \<open>Routing\<close>

text \<open>
  \<^verbatim>\<open>findAllPaths(targetToken, maxDepth)\<close>: the loop over the queue of reversed paths. A
  path is a list of positions in \<^verbatim>\<open>state.tokens\<close>. Paths in the queue are never empty
  (the first one is \<open>[target]\<close> and paths only grow); the first equation for an empty path
  is there for totality only. The \<^verbatim>\<open>visited\<close> set of the source is never read.
\<close>

function findAllPathsLoop ::
  "token list \<Rightarrow> nat \<Rightarrow> nat list list \<Rightarrow> nat list list \<Rightarrow> nat list list" where
  "findAllPathsLoop ts maxDepth [] paths = paths"
| "findAllPathsLoop ts maxDepth ([] # queue) paths = findAllPathsLoop ts maxDepth queue paths"
| "findAllPathsLoop ts maxDepth ((c # cs) # queue) paths =
    (let currentPath = c # cs;
         currentToken = ts ! last currentPath in
     if pairType currentToken = USD \<or> pairType currentToken = WPLS
       then findAllPathsLoop ts maxDepth queue (paths @ [rev currentPath])
     else if length currentPath \<ge> maxDepth
       then findAllPathsLoop ts maxDepth queue paths
     else if pairType currentToken = TOKEN \<and> truthy (pairedTokenId currentToken) then
       (case findToken ts (pairedTokenId currentToken) of
          None \<Rightarrow> findAllPathsLoop ts maxDepth queue paths
        | Some j \<Rightarrow>
            if \<not> (\<exists>t \<in> set currentPath. tokenId (ts ! t) = tokenId (ts ! j))
            then findAllPathsLoop ts maxDepth (queue @ [currentPath @ [j]]) paths
            else findAllPathsLoop ts maxDepth queue paths)
     else findAllPathsLoop ts maxDepth queue paths)"
  by pat_completeness auto
termination
  by (relation "measure (\<lambda>(ts, maxDepth, queue, paths).
        sum_list (map (\<lambda>p. Suc (maxDepth - length p)) queue))") auto

definition findAllPaths :: "global_state \<Rightarrow> nat \<Rightarrow> nat option \<Rightarrow> nat list list" where
  "findAllPaths st targetToken maxDepth =
     findAllPathsLoop (tokens st)
       (case maxDepth of None \<Rightarrow> maxRoutingHops st | Some d \<Rightarrow> d) [[targetToken]] []"

text \<open>
  \<^verbatim>\<open>simulateSwap(token, amountIn, inputType)\<close>. The input type is one of the strings
  \<^verbatim>\<open>'USD'\<close>, \<^verbatim>\<open>'WPLS'\<close>, \<^verbatim>\<open>'TOKEN'\<close>, or \<^verbatim>\<open>undefined\<close> (\<open>None\<close>), in which case
  \<^verbatim>\<open>pairAmountIn\<close> stays undefined and the method call on it throws. The result is
  \<open>Inr None\<close> for \<^verbatim>\<open>null\<close> and \<open>Inr (Some (amountOut, priceImpact))\<close> otherwise.
\<close>

datatype js_error = TypeError

definition simulateSwap ::
  "token \<Rightarrow> real \<Rightarrow> pair_type option \<Rightarrow> js_error + (real \<times> real) option" where
  "simulateSwap token amountIn inputType =
    (if tokenReserve token = 0 \<or> pairReserve token = 0 then Inr None
     else (case inputType of
         None \<Rightarrow> Inl TypeError
       | Some ty \<Rightarrow>
           (let pairAmountIn = amountIn;
                fee = 0.003;
                amountInWithFee = dtimes pairAmountIn (dminus 1 fee);
                tokenOut = ddiv (dtimes (tokenReserve token) amountInWithFee)
                             (dplus (pairReserve token) amountInWithFee);
                priceBefore = ddiv (pairReserve token) (tokenReserve token);
                newPairReserve = dplus (pairReserve token) pairAmountIn;
                newTokenReserve = dminus (tokenReserve token) tokenOut;
                priceAfter = ddiv newPairReserve newTokenReserve;
                priceImpact = dtimes (ddiv (dminus priceAfter priceBefore) priceBefore) 100
            in Inr (Some (tokenOut, priceImpact)))))"

text \<open>
  A route and its hops. The hop fields \<^verbatim>\<open>token\<close>, \<^verbatim>\<open>amountIn\<close>, \<^verbatim>\<open>amountOut\<close>,
  \<^verbatim>\<open>priceImpact\<close> and \<^verbatim>\<open>pairType\<close> carry the prefix \<open>hop\<close>, since record fields are
  global names. The human-readable \<^verbatim>\<open>pathDescription\<close>, built from the tokens' display
  names, is left out.
\<close>

record route_hop =
  hopToken :: nat
  hopAmountIn :: real
  hopAmountOut :: real
  hopPriceImpact :: real
  hopPairType :: pair_type

record route =
  hops :: "route_hop list"
  totalAmountOut :: real
  totalPriceImpact :: real

text \<open>
  \<^verbatim>\<open>calculatePathOutput(path, amountIn)\<close>. The multi-hop loop is \<open>multiHop\<close>, with the loop
  variables as arguments: whether this is the first hop, the rest of the path, and the
  running \<^verbatim>\<open>currentAmount\<close>, \<^verbatim>\<open>hops\<close> and \<^verbatim>\<open>totalPriceImpact\<close>.
\<close>

fun multiHop ::
  "real \<Rightarrow> token list \<Rightarrow> bool \<Rightarrow> nat list \<Rightarrow> real \<Rightarrow> route_hop list \<Rightarrow> real \<Rightarrow>
   js_error + route option" where
  "multiHop pls ts isFirstHop [] currentAmount hs totalImpact =
     Inr (Some \<lparr>hops = hs, totalAmountOut = currentAmount, totalPriceImpact = totalImpact\<rparr>)"
| "multiHop pls ts isFirstHop (t # rest) currentAmount hs totalImpact =
    (let token = ts ! t;
         inputType =
           (if isFirstHop then
              (case pairType token of USD \<Rightarrow> Some USD | WPLS \<Rightarrow> Some WPLS | TOKEN \<Rightarrow> None)
            else Some TOKEN);
         currentAmount1 =
           (if isFirstHop \<and> pairType token = WPLS then ddiv currentAmount pls else currentAmount)
     in (case simulateSwap token currentAmount1 inputType of
           Inl e \<Rightarrow> Inl e
         | Inr None \<Rightarrow> Inr None
         | Inr (Some (out, impact)) \<Rightarrow>
             multiHop pls ts False rest out
               (hs @ [\<lparr>hopToken = t, hopAmountIn = currentAmount1, hopAmountOut = out,
                        hopPriceImpact = impact, hopPairType = pairType token\<rparr>])
               (dplus totalImpact \<bar>impact\<bar>)))"

definition calculatePathOutput ::
  "real \<Rightarrow> token list \<Rightarrow> nat list \<Rightarrow> real \<Rightarrow> js_error + route option" where
  "calculatePathOutput pls ts path amountIn =
    (case path of
       [] \<Rightarrow> Inr None
     | [t] \<Rightarrow>
         (let token = ts ! t in
          case pairType token of
            USD \<Rightarrow>
              (case simulateSwap token amountIn (Some USD) of
                 Inl e \<Rightarrow> Inl e
               | Inr None \<Rightarrow> Inr None
               | Inr (Some (out, impact)) \<Rightarrow>
                   Inr (Some \<lparr>hops = [\<lparr>hopToken = t, hopAmountIn = amountIn, hopAmountOut = out,
                                        hopPriceImpact = impact, hopPairType = USD\<rparr>],
                               totalAmountOut = out, totalPriceImpact = impact\<rparr>))
          | WPLS \<Rightarrow>
              (case simulateSwap token (ddiv amountIn pls) (Some WPLS) of
                 Inl e \<Rightarrow> Inl e
               | Inr None \<Rightarrow> Inr None
               | Inr (Some (out, impact)) \<Rightarrow>
                   Inr (Some \<lparr>hops = [\<lparr>hopToken = t, hopAmountIn = amountIn, hopAmountOut = out,
                                        hopPriceImpact = impact, hopPairType = WPLS\<rparr>],
                               totalAmountOut = out, totalPriceImpact = impact\<rparr>))
          | TOKEN \<Rightarrow>
              Inr (Some \<lparr>hops = [], totalAmountOut = amountIn, totalPriceImpact = 0\<rparr>))
     | _ \<Rightarrow> multiHop pls ts True path amountIn [] 0)"

text \<open>
  \<^verbatim>\<open>findBestPath(targetToken, amountIn)\<close>; \<open>bestPathLoop\<close> is its loop over the paths with
  the loop variables \<^verbatim>\<open>bestRoute\<close> and \<^verbatim>\<open>bestOutput\<close>. Before the loop, \<^verbatim>\<open>bestOutput\<close> is
  initialised with \<^verbatim>\<open>getDecimal().zero()\<close>. The constructor of decimal.js has no property
  \<^verbatim>\<open>zero\<close> (every other place of the source writes \<^verbatim>\<open>new Decimal(0)\<close>), so this is a call
  of \<^verbatim>\<open>undefined\<close>, which throws a \<^verbatim>\<open>TypeError\<close>: \<open>decimalZero\<close> is the outcome of that
  expression.
\<close>

definition decimalZero :: "js_error + real" where
  "decimalZero = Inl TypeError"

fun bestPathLoop ::
  "real \<Rightarrow> token list \<Rightarrow> real \<Rightarrow> nat list list \<Rightarrow> route option \<Rightarrow> real \<Rightarrow> js_error + route option" where
  "bestPathLoop pls ts amountIn [] bestRoute bestOutput = Inr bestRoute"
| "bestPathLoop pls ts amountIn (path # paths) bestRoute bestOutput =
    (case calculatePathOutput pls ts path amountIn of
       Inl e \<Rightarrow> Inl e
     | Inr None \<Rightarrow> bestPathLoop pls ts amountIn paths bestRoute bestOutput
     | Inr (Some r) \<Rightarrow>
         if totalAmountOut r > bestOutput
         then bestPathLoop pls ts amountIn paths (Some r) (totalAmountOut r)
         else bestPathLoop pls ts amountIn paths bestRoute bestOutput)"

definition findBestPath :: "global_state \<Rightarrow> nat \<Rightarrow> real \<Rightarrow> js_error + route option" where
  "findBestPath st targetToken amountIn =
    (let paths = findAllPaths st targetToken None in
     if paths = [] then Inr None
     else (case decimalZero of
             Inl e \<Rightarrow> Inl e
           | Inr bestOutput \<Rightarrow>
               bestPathLoop (plsPrice st) (tokens st) amountIn paths None bestOutput))"






section \<open>Capital analysis\<close>

text \<open>
  \<^verbatim>\<open>calculateLiquidityDepth(token, visited)\<close>; the JavaScript number \<^verbatim>\<open>Infinity\<close> is \<open>\<infinity>\<close>
  of the extended naturals. The \<^verbatim>\<open>visited\<close> set is not read again after the call, so it
  is not returned.
\<close>

function calculateLiquidityDepth :: "token list \<Rightarrow> nat set \<Rightarrow> nat \<Rightarrow> enat" where
  "calculateLiquidityDepth ts visited i =
    (if \<not> i < length ts then \<infinity>
     else if tokenId (ts ! i) \<in> visited then \<infinity>
     else if pairType (ts ! i) = USD \<or> pairType (ts ! i) = WPLS then 0
     else if pairType (ts ! i) = TOKEN \<and> truthy (pairedTokenId (ts ! i)) then
       (case findToken ts (pairedTokenId (ts ! i)) of
          None \<Rightarrow> \<infinity>
        | Some j \<Rightarrow> 1 + calculateLiquidityDepth ts (insert (tokenId (ts ! i)) visited) j)
     else \<infinity>)"
  by pat_completeness auto
termination
proof (relation "measure (\<lambda>(ts, visited, i). card (tokenId ` set ts - visited))")
  show "wf (measure (\<lambda>(ts, visited, i). card (tokenId ` set ts - visited)))"
    by simp
next
  fix ts :: "token list" and visited :: "nat set" and i x2 :: nat
  assume lt: "\<not> \<not> i < length ts" and nv: "tokenId (ts ! i) \<notin> visited"
  have mem: "tokenId (ts ! i) \<in> tokenId ` set ts - visited"
    using lt nv by simp
  have fin: "finite (tokenId ` set ts - visited)"
    by simp
  have eq: "tokenId ` set ts - insert (tokenId (ts ! i)) visited
        = (tokenId ` set ts - visited) - {tokenId (ts ! i)}"
    by blast
  have "card (tokenId ` set ts - insert (tokenId (ts ! i)) visited)
        < card (tokenId ` set ts - visited)"
    unfolding eq using fin mem by (rule card_Diff1_less)
  then show "((ts, insert (tokenId (ts ! i)) visited, x2), ts, visited, i)
      \<in> measure (\<lambda>(ts, visited, i). card (tokenId ` set ts - visited))"
    by simp
qed

text \<open>\<^verbatim>\<open>calculateRealCapital(token)\<close>.\<close>

definition calculateRealCapital :: "real \<Rightarrow> token \<Rightarrow> real" where
  "calculateRealCapital pls token =
    (if pairReserve token \<noteq> 0 then
       (case pairType token of
          USD \<Rightarrow> pairReserve token
        | WPLS \<Rightarrow> pairReserve token * pls
        | TOKEN \<Rightarrow> 0)
     else 0)"

text \<open>
  \<^verbatim>\<open>calculateRealCapitalBacking(token, pairedToken, visited)\<close> for the tokens at positions
  \<open>i\<close> and \<open>j\<close>.
\<close>

function calculateRealCapitalBacking :: "real \<Rightarrow> token list \<Rightarrow> nat set \<Rightarrow> nat \<Rightarrow> nat \<Rightarrow> real" where
  "calculateRealCapitalBacking pls ts visited i j =
    (if \<not> j < length ts then 0
     else if tokenId (ts ! j) \<in> visited then 0
     else if totalSupply (ts ! j) = 0 then 0
     else
       (let percentageUsed = pairReserve (ts ! i) / totalSupply (ts ! j);
            realCapitalBehindPaired =
              (case pairType (ts ! j) of
                 USD \<Rightarrow> pairReserve (ts ! j)
               | WPLS \<Rightarrow> pairReserve (ts ! j) * pls
               | TOKEN \<Rightarrow>
                   (if truthy (pairedTokenId (ts ! j)) then
                      (case findToken ts (pairedTokenId (ts ! j)) of
                         None \<Rightarrow> 0
                       | Some g \<Rightarrow>
                           calculateRealCapitalBacking pls ts (insert (tokenId (ts ! j)) visited) j g)
                    else 0))
        in realCapitalBehindPaired * percentageUsed))"
  by pat_completeness auto
termination
proof (relation "measure (\<lambda>(pls, ts, visited, i, j). card (tokenId ` set ts - visited))")
  show "wf (measure (\<lambda>(pls, ts, visited, i, j). card (tokenId ` set ts - visited)))"
    by simp
next
  fix pls :: real and ts :: "token list" and visited :: "nat set" and i j x2 :: nat
  assume lt: "\<not> \<not> j < length ts" and nv: "tokenId (ts ! j) \<notin> visited"
  have mem: "tokenId (ts ! j) \<in> tokenId ` set ts - visited"
    using lt nv by simp
  have fin: "finite (tokenId ` set ts - visited)"
    by simp
  have eq: "tokenId ` set ts - insert (tokenId (ts ! j)) visited
        = (tokenId ` set ts - visited) - {tokenId (ts ! j)}"
    by blast
  have "card (tokenId ` set ts - insert (tokenId (ts ! j)) visited)
        < card (tokenId ` set ts - visited)"
    unfolding eq using fin mem by (rule card_Diff1_less)
  then show "((pls, ts, insert (tokenId (ts ! j)) visited, j, x2), pls, ts, visited, i, j)
      \<in> measure (\<lambda>(pls, ts, visited, i, j). card (tokenId ` set ts - visited))"
    by simp
qed

text \<open>
  \<^verbatim>\<open>calculateDerivedCapital(token)\<close>. In market mode it asks the paired token for its
  price (with a fresh \<^verbatim>\<open>visited\<close> set), which may refresh price caches, so the state is
  returned with the value.
\<close>

definition calculateDerivedCapital :: "int \<Rightarrow> global_state \<Rightarrow> nat \<Rightarrow> real \<times> global_state" where
  "calculateDerivedCapital now st i =
    (let token = tokens st ! i in
     if pairType token = TOKEN \<and> truthy (pairedTokenId token) \<and> pairReserve token \<noteq> 0 then
       (case findToken (tokens st) (pairedTokenId token) of
          None \<Rightarrow> (0, st)
        | Some j \<Rightarrow>
            (case capitalCalculationMode st of
               Market \<Rightarrow>
                 (case calculateTokenPriceUSD now (plsPrice st) (tokens st) {} j of
                    (pairedTokenPrice, ts', visited', calls, revisited) \<Rightarrow>
                      (pairReserve token * pairedTokenPrice, st\<lparr>tokens := ts'\<rparr>))
             | Backing \<Rightarrow> (calculateRealCapitalBacking (plsPrice st) (tokens st) {} i j, st)))
     else (0, st))"

text \<open>
  \<^verbatim>\<open>getCapitalBreakdown()\<close>; \<open>breakdownLoop\<close> is its \<^verbatim>\<open>forEach\<close> over the tokens with the
  accumulators \<^verbatim>\<open>realCapital\<close>, \<^verbatim>\<open>derivedCapital\<close>, \<^verbatim>\<open>totalDepth\<close> and \<^verbatim>\<open>tokenCount\<close>. The
  average depth is a quotient of two JavaScript numbers, taken here in the reals.
\<close>

record capital_breakdown =
  realCapital :: real
  derivedCapital :: real
  totalDisplayedValue :: real
  leverageRatio :: real
  averageDepth :: real

fun breakdownLoop ::
  "int \<Rightarrow> nat list \<Rightarrow> global_state \<Rightarrow> real \<Rightarrow> real \<Rightarrow> nat \<Rightarrow> nat \<Rightarrow>
   real \<times> real \<times> nat \<times> nat \<times> global_state" where
  "breakdownLoop now [] st rc dc totalDepth tokenCount = (rc, dc, totalDepth, tokenCount, st)"
| "breakdownLoop now (i # rest) st rc dc totalDepth tokenCount =
    (let realPart = calculateRealCapital (plsPrice st) (tokens st ! i) in
     case calculateDerivedCapital now st i of
       (derived, st1) \<Rightarrow>
         (case calculateLiquidityDepth (tokens st1) {} i of
            enat d \<Rightarrow>
              breakdownLoop now rest st1 (rc + realPart) (dc + derived) (totalDepth + d) (Suc tokenCount)
          | \<infinity> \<Rightarrow>
              breakdownLoop now rest st1 (rc + realPart) (dc + derived) totalDepth tokenCount))"

definition getCapitalBreakdown :: "int \<Rightarrow> global_state \<Rightarrow> capital_breakdown \<times> global_state" where
  "getCapitalBreakdown now st =
    (case breakdownLoop now [0..<length (tokens st)] st 0 0 0 0 of
       (rc, dc, totalDepth, tokenCount, st') \<Rightarrow>
         (\<lparr>realCapital = rc, derivedCapital = dc, totalDisplayedValue = rc + dc,
           leverageRatio = (if rc = 0 then 0 else dc / rc),
           averageDepth = (if tokenCount > 0 then real totalDepth / real tokenCount else 0)\<rparr>,
          st'))"

text \<open>
  \<^verbatim>\<open>calculateCascadeImpact(percentageChange)\<close>; \<open>impactLoop\<close> is the \<^verbatim>\<open>map\<close> over the
  tokens. For a token of infinite depth the source raises the multiplier to the power
  \<^verbatim>\<open>Infinity\<close>; the outcome is a non-finite or library-defined \<^verbatim>\<open>Decimal\<close>, which the
  model does not represent: \<open>newValue\<close> and \<open>changePercent\<close> are \<open>None\<close> then. The result
  field \<^verbatim>\<open>averageImpact\<close>, computed in floating point, is left out, and
  \<open>changePercent\<close> is the decimal before its conversion to a JavaScript number. The sort
  is stable and descending in \<open>\<bar>changePercent\<bar>\<close>; entries without a value are put first.
\<close>

record token_impact =
  impactTokenId :: nat
  depth :: enat
  originalValue :: real
  newValue :: "real option"
  changePercent :: "real option"

record cascade_result =
  plsPriceChange :: real
  newPlsPrice :: real
  realCapitalChange :: real
  impacts :: "token_impact list"
  mostVulnerable :: "token_impact option"

fun impactLoop ::
  "int \<Rightarrow> real \<Rightarrow> nat list \<Rightarrow> global_state \<Rightarrow> token_impact list \<times> global_state" where
  "impactLoop now multiplier [] st = ([], st)"
| "impactLoop now multiplier (i # rest) st =
    (let d = calculateLiquidityDepth (tokens st) {} i;
         realPart = calculateRealCapital (plsPrice st) (tokens st ! i) in
     case calculateDerivedCapital now st i of
       (derived, st1) \<Rightarrow>
         (let original = realPart + derived;
              depthMultiplier = (case d of enat n \<Rightarrow> Some (multiplier ^ (n + 1)) | \<infinity> \<Rightarrow> None);
              new = map_option (\<lambda>m. original * m) depthMultiplier;
              change = (if original = 0 then Some 0
                        else map_option (\<lambda>v. (v - original) / original * 100) new)
          in case impactLoop now multiplier rest st1 of
               (rest', st2) \<Rightarrow>
                 (\<lparr>impactTokenId = tokenId (tokens st ! i), depth = d, originalValue = original,
                    newValue = new, changePercent = change\<rparr> # rest', st2)))"

definition calculateCascadeImpact ::
  "int \<Rightarrow> global_state \<Rightarrow> real \<Rightarrow> cascade_result \<times> global_state" where
  "calculateCascadeImpact now st percentageChange =
    (let multiplier = 1 + percentageChange / 100 in
     case getCapitalBreakdown now st of
       (originalBreakdown, st1) \<Rightarrow>
         (let newPls = plsPrice st1 * multiplier;
              newRealCapital = realCapital originalBreakdown * multiplier in
          case impactLoop now multiplier [0..<length (tokens st1)] st1 of
            (unsorted, st2) \<Rightarrow>
              (let sorted = sort_key (\<lambda>e. map_option (\<lambda>c. - \<bar>c\<bar>) (changePercent e)) unsorted in
               (\<lparr>plsPriceChange = percentageChange, newPlsPrice = newPls,
                  realCapitalChange = newRealCapital - realCapital originalBreakdown,
                  impacts = sorted,
                  mostVulnerable = (case sorted of [] \<Rightarrow> None | e # _ \<Rightarrow> Some e)\<rparr>,
                st2))))"

section \<open>The specification's wording of swap and hop\<close>


definition exactProductOut :: "real \<Rightarrow> real \<Rightarrow> real \<Rightarrow> real" where
  "exactProductOut amountIn inputReserve outputReserve =
     outputReserve * (amountIn * (1 - 0.003)) / (inputReserve + amountIn * (1 - 0.003))"



section \<open>Auxiliary notions for the proofs\<close>

text \<open>Everything of a token except its price cache.\<close>

definition uncache :: "token \<Rightarrow> token" where
  "uncache t = t\<lparr>cachedUSDPrice := 0, priceLastUpdated := 0\<rparr>"

text \<open>The call on position \<open>i\<close> reaches the recursive call on the paired token at \<open>j\<close>.\<close>

definition resolvesThroughPair :: "int \<Rightarrow> token list \<Rightarrow> nat set \<Rightarrow> nat \<Rightarrow> nat \<Rightarrow> bool" where
  "resolvesThroughPair now ts visited i j \<longleftrightarrow>
     i < length ts \<and> tokenId (ts ! i) \<notin> visited \<and>
     \<not> (now - priceLastUpdated (ts ! i) < 1000 \<and> cachedUSDPrice (ts ! i) \<noteq> 0) \<and>
     pairReserve (ts ! i) \<noteq> 0 \<and> tokenReserve (ts ! i) \<noteq> 0 \<and> pairType (ts ! i) = TOKEN \<and>
     findToken ts (pairedTokenId (ts ! i)) = Some j"

text \<open>The second state differs from the first in price caches at most.\<close>

definition cacheOnly :: "global_state \<Rightarrow> global_state \<Rightarrow> bool" where
  "cacheOnly st st' \<longleftrightarrow>
     map uncache (tokens st') = map uncache (tokens st) \<and> plsPrice st' = plsPrice st \<and>
     maxRoutingHops st' = maxRoutingHops st \<and> applySlippage st' = applySlippage st \<and>
     capitalCalculationMode st' = capitalCalculationMode st"


section \<open>Example states\<close>

text \<open>A pool with the given pairing and reserves \<open>(tokenReserve, pairReserve)\<close>.\<close>

definition pool :: "nat \<Rightarrow> pair_type \<Rightarrow> nat option \<Rightarrow> real \<Rightarrow> real \<Rightarrow> token" where
  "pool i pt pid tr pr = (newToken i)\<lparr>pairType := pt, pairedTokenId := pid, tokenReserve := tr,
     pairReserve := pr, totalLiquidity := pr, k := tr * pr\<rparr>"

text \<open>Two pools paired with each other: token 1 with token 2 and token 2 with token 1.\<close>

definition cyclePair :: "token list" where
  "cyclePair = [pool 1 TOKEN (Some 2) 1000 500, pool 2 TOKEN (Some 1) 1000 1000]"

text \<open>
  One USD-paired pool with reserves \<open>(1000, 1000)\<close>, in realistic mode
  (\<^verbatim>\<open>applySlippage\<close> true, the default) or in ideal mode.
\<close>

definition usdPoolState :: "bool \<Rightarrow> global_state" where
  "usdPoolState slip = \<lparr>tokens = [pool 1 USD None 1000 1000], plsPrice = 1, maxRoutingHops = 3,
     applySlippage = slip, capitalCalculationMode = Market\<rparr>"



text \<open>
  The pools of the routing example: X (token 1) paired with USD, reserves \<open>(1000, 1000)\<close>,
  and Y (token 2) paired with X, with the given token and pair reserves.
\<close>

definition routingState :: "real \<Rightarrow> real \<Rightarrow> global_state" where
  "routingState tr pr = \<lparr>tokens = [pool 1 USD None 1000 1000, pool 2 TOKEN (Some 1) tr pr],
     plsPrice = 1, maxRoutingHops = 3, applySlippage = True, capitalCalculationMode = Market\<rparr>"



text \<open>
  A WPLS-paired pool (token 1, reserves \<open>(1000, 1000)\<close>) and a pool paired with it (token
  2, reserves \<open>(1000, 500)\<close>); no price has been cached yet.
\<close>

definition wplsParent :: token where
  "wplsParent = pool 1 WPLS None 1000 1000"

definition tokenChild :: token where
  "tokenChild = pool 2 TOKEN (Some 1) 1000 500"

definition wplsChainState :: global_state where
  "wplsChainState = \<lparr>tokens = [wplsParent, tokenChild],
     plsPrice = 1, maxRoutingHops = 3, applySlippage = True, capitalCalculationMode = Market\<rparr>"

text \<open>
  Two fresh tokens, the second one set to pair with the first, before any liquidity.
\<close>

definition supplyState :: global_state where
  "supplyState = \<lparr>tokens = [newToken 1, (newToken 2)\<lparr>pairType := TOKEN, pairedTokenId := Some 1\<rparr>],
     plsPrice = 1, maxRoutingHops = 3, applySlippage = True, capitalCalculationMode = Market\<rparr>"

text \<open>
  A chain of depth 2: token 1 paired with USD, reserves \<open>(1000, 1000)\<close>; token 2 paired
  with token 1, reserves \<open>(1000, 500)\<close>; token 3 paired with token 2, reserves
  \<open>(1000, 200)\<close>. \<open>marketState\<close> is the state holding the given tokens, in market mode.
\<close>

definition chainA :: token where
  "chainA = pool 1 USD None 1000 1000"

definition chainB :: token where
  "chainB = pool 2 TOKEN (Some 1) 1000 500"

definition chainC :: token where
  "chainC = pool 3 TOKEN (Some 2) 1000 200"

definition marketState :: "token list \<Rightarrow> global_state" where
  "marketState ts = \<lparr>tokens = ts, plsPrice = 1, maxRoutingHops = 3, applySlippage = True,
     capitalCalculationMode = Market\<rparr>"

section \<open>Properties of the rounding\<close>

lemma dround_0 [simp]: "dround 0 = 0"
  by (simp add: dround_def)


lemma sigExp_eqI:
  assumes "10 powr real_of_int e \<le> \<bar>x\<bar>" "\<bar>x\<bar> < 10 powr real_of_int (e + 1)"
  shows "sigExp x = e"
proof -
  have "0 < (10::real) powr real_of_int e"
    by simp
  then have pos: "0 < \<bar>x\<bar>"
    using assms(1) by linarith
  show ?thesis
    unfolding sigExp_def using assms floor_log_eq_powr_iff[of "\<bar>x\<bar>" 10 e] pos by simp
qed

lemma sigExp_bounds:
  assumes "x \<noteq> 0"
  shows "10 powr real_of_int (sigExp x) \<le> \<bar>x\<bar>" "\<bar>x\<bar> < 10 powr real_of_int (sigExp x + 1)"
  using floor_log_eq_powr_iff[of "\<bar>x\<bar>" 10 "sigExp x"] assms
  by (simp_all add: sigExp_def)

lemma dround_eval:
  assumes "10 powr real_of_int e \<le> \<bar>x\<bar>" "\<bar>x\<bar> < 10 powr real_of_int (e + 1)"
  shows "dround x = sgn x * real_of_int \<lfloor>\<bar>x\<bar> * 10 powr real_of_int (19 - e) + 1 / 2\<rfloor>
            / 10 powr real_of_int (19 - e)"
proof -
  have "0 < (10::real) powr real_of_int e"
    by simp
  then have "0 < \<bar>x\<bar>"
    using assms(1) by linarith
  then have "x \<noteq> 0"
    by simp
  then show ?thesis
    by (simp add: dround_def sigExp_eqI[OF assms])
qed

text \<open>A decimal with at most 20 significant digits is not changed by the rounding.\<close>

lemma dround_fixed:
  assumes x: "x = real_of_int m / 10 ^ j" and m: "\<bar>m\<bar> < 10 ^ 20"
  shows "dround x = x"
proof (cases "x = 0")
  case True
  then show ?thesis by simp
next
  case False
  define e where "e = sigExp x"
  have b: "10 powr real_of_int e \<le> \<bar>x\<bar>" "\<bar>x\<bar> < 10 powr real_of_int (e + 1)"
    unfolding e_def using sigExp_bounds[OF False] by simp_all
  have ax: "\<bar>x\<bar> = real_of_int \<bar>m\<bar> / 10 ^ j"
    by (simp add: x)
  have "\<bar>x\<bar> < 10 ^ 20 / 10 ^ j"
    unfolding ax using m by (simp add: divide_strict_right_mono)
  also have "\<dots> = 10 powr (20 - real j)"
    by (simp add: powr_diff powr_realpow)
  finally have "\<bar>x\<bar> < 10 powr (20 - real j)" .
  with b(1) have "10 powr real_of_int e < 10 powr (20 - real j)"
    by (rule le_less_trans)
  then have "real_of_int e < 20 - real j"
    by simp
  then have ej: "e + int j \<le> 19"
    by linarith
  define n where "n = nat (19 - e - int j)"
  have n: "int n = 19 - e - int j"
    using ej by (simp add: n_def)
  have "19 - e = int n + int j"
    using n by simp
  then have "real_of_int (19 - e) = real n + real j"
    by simp
  then have "10 powr real_of_int (19 - e) = 10 powr (real n + real j)"
    by simp
  also have "\<dots> = 10 ^ n * 10 ^ j"
    by (simp add: powr_add powr_realpow)
  finally have s: "10 powr real_of_int (19 - e) = 10 ^ n * 10 ^ j" .
  have scaled: "\<bar>x\<bar> * 10 powr real_of_int (19 - e) = real_of_int (\<bar>m\<bar> * 10 ^ n)"
    unfolding s ax by simp
  have fl: "\<lfloor>\<bar>x\<bar> * 10 powr real_of_int (19 - e) + 1 / 2\<rfloor> = \<bar>m\<bar> * 10 ^ n"
    unfolding scaled by (rule floor_unique) simp_all
  have "dround x = sgn x * real_of_int \<lfloor>\<bar>x\<bar> * 10 powr real_of_int (19 - e) + 1 / 2\<rfloor>
            / 10 powr real_of_int (19 - e)"
    by (rule dround_eval[OF b])
  also have "\<dots> = sgn x * real_of_int (\<bar>m\<bar> * 10 ^ n) / (10 ^ n * 10 ^ j)"
    unfolding fl unfolding s ..
  also have "\<dots> = sgn x * \<bar>x\<bar>"
    unfolding ax by simp
  also have "\<dots> = x"
    by (simp add: sgn_mult_abs)
  finally show ?thesis .
qed

text \<open>
  The rounding of a positive \<open>x\<close> below \<open>10 ^ 20\<close>, given the position \<open>n\<close> of its twentieth
  significant digit and the integer \<open>m\<close> nearest to \<open>x \<times> 10 ^ n\<close>.
\<close>

lemma dround_value:
  assumes "0 < x" and "10 ^ 19 \<le> x * 10 ^ n" and "x * 10 ^ n < 10 ^ 20"
    and "real_of_int m \<le> x * 10 ^ n + 1 / 2" and "x * 10 ^ n + 1 / 2 < real_of_int m + 1"
  shows "dround x = real_of_int m / 10 ^ n"
proof -
  define e where "e = 19 - int n"
  have p: "10 powr real_of_int (19 - e) = 10 ^ n"
    by (simp add: e_def powr_realpow)
  have "10 powr real_of_int e = 10 ^ 19 / 10 ^ n"
    by (simp add: e_def powr_diff powr_realpow)
  also have "\<dots> \<le> x"
    using assms(2) by (simp add: divide_le_eq)
  finally have b1: "10 powr real_of_int e \<le> \<bar>x\<bar>"
    using assms(1) by simp
  have "x < 10 ^ 20 / 10 ^ n"
    using assms(3) by (simp add: less_divide_eq)
  also have "\<dots> = 10 powr real_of_int (e + 1)"
    by (simp add: e_def powr_diff powr_realpow)
  finally have b2: "\<bar>x\<bar> < 10 powr real_of_int (e + 1)"
    using assms(1) by simp
  have ax: "\<bar>x\<bar> = x"
    using assms(1) by simp
  have fl: "\<lfloor>\<bar>x\<bar> * 10 ^ n + 1 / 2\<rfloor> = m"
    unfolding ax using assms(4,5) by (rule floor_unique)
  have "dround x = sgn x * real_of_int \<lfloor>\<bar>x\<bar> * 10 ^ n + 1 / 2\<rfloor> / 10 ^ n"
    unfolding dround_eval[OF b1 b2] p ..
  then show ?thesis
    unfolding fl using assms(1) by simp
qed



lemma dec_fee: "ddiv 0.3 100 = 0.003" "dminus 1 0.003 = 0.997"
proof -
  show "ddiv 0.3 100 = 0.003"
    unfolding ddiv_def using dround_fixed[of "0.3 / 100" 3 3] by simp
  show "dminus 1 0.003 = 0.997"
    unfolding dminus_def using dround_fixed[of "1 - 0.003" 997 3] by simp
qed




section \<open>Properties of price resolution\<close>

declare calculateTokenPriceUSD.simps [simp del]

lemma uncache_setCache [simp]: "uncache (setCache p now t) = uncache t"
  by (simp add: uncache_def setCache_def)

lemma map_uncache_update:
  "uncache x = uncache (ts ! i) \<Longrightarrow> map uncache (ts[i := x]) = map uncache ts"
  by (cases "i < length ts") (simp_all add: map_update list_update_same_conv list_update_beyond)

lemma card_visit:
  assumes "i < length ts" "tokenId (ts ! i) \<notin> visited"
  shows "Suc (card (tokenId ` set ts - insert (tokenId (ts ! i)) visited)) \<le> card (tokenId ` set ts - visited)"
proof -
  have mem: "tokenId (ts ! i) \<in> tokenId ` set ts - visited"
    using assms by simp
  have eq: "tokenId ` set ts - insert (tokenId (ts ! i)) visited
        = (tokenId ` set ts - visited) - {tokenId (ts ! i)}"
    by blast
  have "card (tokenId ` set ts - insert (tokenId (ts ! i)) visited) < card (tokenId ` set ts - visited)"
    unfolding eq using mem by (intro card_Diff1_less) simp_all
  then show ?thesis by simp
qed

lemma price_rec:
  "resolvesThroughPair now ts visited i j \<Longrightarrow>
   calculateTokenPriceUSD now pls ts visited i =
     (case calculateTokenPriceUSD now pls ts (insert (tokenId (ts ! i)) visited) j of
        (pp, ts2, v2, c2, r2) \<Rightarrow>
          (pairReserve (ts ! i) / tokenReserve (ts ! i) * pp,
           ts2[i := setCache (pairReserve (ts ! i) / tokenReserve (ts ! i) * pp) now (ts2 ! i)],
           v2, Suc c2, r2))"
  by (subst calculateTokenPriceUSD.simps) (auto simp add: resolvesThroughPair_def)

lemma price_leaf:
  assumes "\<And>j. \<not> resolvesThroughPair now ts visited i j"
    and "calculateTokenPriceUSD now pls ts visited i = (p, ts', v', c, r)"
  shows "c = 1 \<and> (r \<longrightarrow> p = 0) \<and> (ts' = ts \<or> (\<exists>q. ts' = ts[i := setCache q now (ts ! i)]))"
proof (cases "findToken ts (pairedTokenId (ts ! i))")
  case None
  with assms(2) show ?thesis
    by (subst (asm) calculateTokenPriceUSD.simps)
       (auto split: if_splits pair_type.splits)
next
  case (Some j)
  with assms(1)[of j] assms(2) show ?thesis
    by (subst (asm) calculateTokenPriceUSD.simps)
       (auto simp: resolvesThroughPair_def split: if_splits pair_type.splits)
qed

lemma price_length:
  "calculateTokenPriceUSD now pls ts visited i = (p, ts', v', c, r) \<Longrightarrow> length ts' = length ts"
proof (induction now pls ts visited i arbitrary: p ts' v' c r rule: calculateTokenPriceUSD.induct)
  case (1 now pls ts visited i)
  show ?case
  proof (cases "\<exists>j. resolvesThroughPair now ts visited i j")
    case False
    with price_leaf[OF _ "1.prems"] show ?thesis by auto
  next
    case True
    then obtain j where j: "resolvesThroughPair now ts visited i j" ..
    obtain pp ts2 v2 c2 r2 where
      rec: "calculateTokenPriceUSD now pls ts (insert (tokenId (ts ! i)) visited) j = (pp, ts2, v2, c2, r2)"
      by (metis prod_cases5)
    have "length ts2 = length ts"
      using "1.IH"[OF _ _ _ _ _ _ rec] j by (simp add: resolvesThroughPair_def)
    with price_rec[OF j, of pls] rec "1.prems" show ?thesis by auto
  qed
qed

lemma price_frame:
  "calculateTokenPriceUSD now pls ts visited i = (p, ts', v', c, r) \<Longrightarrow> map uncache ts' = map uncache ts"
proof (induction now pls ts visited i arbitrary: p ts' v' c r rule: calculateTokenPriceUSD.induct)
  case (1 now pls ts visited i)
  show ?case
  proof (cases "\<exists>j. resolvesThroughPair now ts visited i j")
    case False
    with price_leaf[OF _ "1.prems"] show ?thesis by (auto simp: map_uncache_update)
  next
    case True
    then obtain j where j: "resolvesThroughPair now ts visited i j" ..
    obtain pp ts2 v2 c2 r2 where
      rec: "calculateTokenPriceUSD now pls ts (insert (tokenId (ts ! i)) visited) j = (pp, ts2, v2, c2, r2)"
      by (metis prod_cases5)
    have "map uncache ts2 = map uncache ts"
      using "1.IH"[OF _ _ _ _ _ _ rec] j by (simp add: resolvesThroughPair_def)
    with price_rec[OF j, of pls] rec "1.prems" show ?thesis by (auto simp: map_uncache_update)
  qed
qed

lemma price_calls:
  "calculateTokenPriceUSD now pls ts visited i = (p, ts', v', c, r) \<Longrightarrow>
     c \<le> Suc (card (tokenId ` set ts - visited)) \<and> (r \<longrightarrow> p = 0)"
proof (induction now pls ts visited i arbitrary: p ts' v' c r rule: calculateTokenPriceUSD.induct)
  case (1 now pls ts visited i)
  show ?case
  proof (cases "\<exists>j. resolvesThroughPair now ts visited i j")
    case False
    with price_leaf[OF _ "1.prems"] show ?thesis by auto
  next
    case True
    then obtain j where j: "resolvesThroughPair now ts visited i j" ..
    obtain pp ts2 v2 c2 r2 where
      rec: "calculateTokenPriceUSD now pls ts (insert (tokenId (ts ! i)) visited) j = (pp, ts2, v2, c2, r2)"
      by (metis prod_cases5)
    have IH: "c2 \<le> Suc (card (tokenId ` set ts - insert (tokenId (ts ! i)) visited)) \<and> (r2 \<longrightarrow> pp = 0)"
      using "1.IH"[OF _ _ _ _ _ _ rec] j by (simp add: resolvesThroughPair_def)
    have "Suc (card (tokenId ` set ts - insert (tokenId (ts ! i)) visited)) \<le> card (tokenId ` set ts - visited)"
      using j by (intro card_visit) (simp_all add: resolvesThroughPair_def)
    with IH price_rec[OF j, of pls] rec "1.prems" show ?thesis by auto
  qed
qed

lemma cyclePair_first:
  "calculateTokenPriceUSD 5000 1 cyclePair {} 0 =
     (0, [setCache 0 5000 (pool 1 TOKEN (Some 2) 1000 500),
          setCache 0 5000 (pool 2 TOKEN (Some 1) 1000 1000)], {1, 2}, 3, True)"
  by (simp add: calculateTokenPriceUSD.simps cyclePair_def pool_def newToken_def findToken_def
        setCache_def insert_commute)

lemma cyclePair_second:
  "calculateTokenPriceUSD 5000 1 cyclePair {} 1 =
     (0, [setCache 0 5000 (pool 1 TOKEN (Some 2) 1000 500),
          setCache 0 5000 (pool 2 TOKEN (Some 1) 1000 1000)], {1, 2}, 3, True)"
  by (simp add: calculateTokenPriceUSD.simps cyclePair_def pool_def newToken_def findToken_def
        setCache_def insert_commute)

text \<open>
  Claim C6. Price resolution is a total function (its termination is proved with the
  definition), also on a pairing graph with a cycle. A call makes at most one invocation
  per token id not yet visited, plus one: at most \<open>length ts + 1\<close> invocations in all. A
  call on a token whose id is already in the visiting set returns 0 without touching any
  cache, and every call whose resolution reaches such a revisit returns 0.
\<close>

theorem calculateTokenPriceUSD_cycle_safe:
  "calculateTokenPriceUSD now pls ts visited i = (p, ts', visited', calls, revisited) \<Longrightarrow>
     calls \<le> Suc (card (tokenId ` set ts - visited)) \<and> calls \<le> Suc (length ts) \<and>
     (revisited \<longrightarrow> p = 0) \<and>
     (i < length ts \<and> tokenId (ts ! i) \<in> visited \<longrightarrow> revisited \<and> ts' = ts)"
proof -
  assume a: "calculateTokenPriceUSD now pls ts visited i = (p, ts', visited', calls, revisited)"
  have "card (tokenId ` set ts - visited) \<le> card (tokenId ` set ts)"
    by (intro card_mono) auto
  also have "\<dots> \<le> length ts"
    by (metis card_image_le card_length le_trans List.finite_set)
  finally have le: "card (tokenId ` set ts - visited) \<le> length ts" .
  have v: "i < length ts \<and> tokenId (ts ! i) \<in> visited \<longrightarrow> revisited \<and> ts' = ts"
    using a by (subst (asm) calculateTokenPriceUSD.simps) auto
  from price_calls[OF a] le v show ?thesis by auto
qed

theorem calculateTokenPriceUSD_cycle_safe_witness:
  "fst (calculateTokenPriceUSD 5000 1 cyclePair {} 0) = 0 \<and>
   fst (calculateTokenPriceUSD 5000 1 cyclePair {} 1) = 0 \<and>
   fst (snd (snd (snd (calculateTokenPriceUSD 5000 1 cyclePair {} 0)))) \<le> 3 \<and>
   fst (snd (snd (snd (calculateTokenPriceUSD 5000 1 cyclePair {} 1)))) \<le> 3"
  using calculateTokenPriceUSD_cycle_safe[OF cyclePair_first]
    calculateTokenPriceUSD_cycle_safe[OF cyclePair_second]
  unfolding cyclePair_first cyclePair_second by simp

section \<open>Swaps\<close>

lemma price_frame':
  "map uncache (fst (snd (calculateTokenPriceUSD now pls ts visited i))) = map uncache ts"
  by (metis price_frame prod.collapse)

lemma refreshPrice_frame [simp]: "map uncache (refreshPrice now pls ts i) = map uncache ts"
  by (simp add: refreshPrice_def price_frame')

lemma updateLiquidityDisplay_frame [simp]:
  "map uncache (updateLiquidityDisplay now pls ts i) = map uncache ts"
  by (simp add: updateLiquidityDisplay_def)

lemma updateDisplay_frame [simp]: "map uncache (updateDisplay now pls ts i) = map uncache ts"
  by (simp add: updateDisplay_def)

lemma uncache_nth:
  assumes "map uncache a = map uncache b" "i < length b"
  shows "uncache (a ! i) = uncache (b ! i)"
proof -
  have "length a = length b" using assms(1) by (rule map_eq_imp_length_eq)
  then have "uncache (a ! i) = map uncache a ! i" using assms(2) by simp
  also have "\<dots> = uncache (b ! i)" using assms by simp
  finally show ?thesis .
qed

lemma uncache_fields:
  assumes "uncache a = uncache b"
  shows "tokenId a = tokenId b" "totalSupply a = totalSupply b" "totalLiquidity a = totalLiquidity b"
    "plsBalance a = plsBalance b" "pairType a = pairType b" "pairedTokenId a = pairedTokenId b"
    "tokenReserve a = tokenReserve b" "pairReserve a = pairReserve b"
    "lpTotalSupply a = lpTotalSupply b" "k a = k b"
proof -
  have "\<And>f. f (uncache a) = f (uncache b)" using assms by simp
  note this[unfolded uncache_def]
  from this[of tokenId] this[of totalSupply] this[of totalLiquidity] this[of plsBalance]
    this[of pairType] this[of pairedTokenId] this[of tokenReserve] this[of pairReserve]
    this[of lpTotalSupply] this[of k]
  show "tokenId a = tokenId b" "totalSupply a = totalSupply b" "totalLiquidity a = totalLiquidity b"
    "plsBalance a = plsBalance b" "pairType a = pairType b" "pairedTokenId a = pairedTokenId b"
    "tokenReserve a = tokenReserve b" "pairReserve a = pairReserve b"
    "lpTotalSupply a = lpTotalSupply b" "k a = k b"
    by simp_all
qed

lemma commitBuy_effect:
  assumes "commitBuy now st i amountIn tokenOut impact = (res, st')" "i < length (tokens st)"
  shows "tokensReceived res = tokenOut" "buyPriceImpact res = impact"
    "slippageApplied res = applySlippage st"
    "map uncache (tokens st') = map uncache ((tokens st)[i := (tokens st ! i)\<lparr>
        pairReserve := dplus (pairReserve (tokens st ! i)) amountIn,
        tokenReserve := dminus (tokenReserve (tokens st ! i)) tokenOut,
        k := dtimes (dminus (tokenReserve (tokens st ! i)) tokenOut)
               (dplus (pairReserve (tokens st ! i)) amountIn),
        totalLiquidity := dplus (pairReserve (tokens st ! i)) amountIn\<rparr>])"
    "plsPrice st' = plsPrice st" "applySlippage st' = applySlippage st"
    "maxRoutingHops st' = maxRoutingHops st" "capitalCalculationMode st' = capitalCalculationMode st"
  using assms
  by (auto simp: commitBuy_def Let_def price_frame' map_update uncache_def split: prod.splits dest!: price_frame)

lemma commitBuy_token:
  assumes "commitBuy now st i amountIn tokenOut impact = (res, st')" "i < length (tokens st)"
  shows "tokenReserve (tokens st' ! i) = dminus (tokenReserve (tokens st ! i)) tokenOut"
    and "pairReserve (tokens st' ! i) = dplus (pairReserve (tokens st ! i)) amountIn"
    and "k (tokens st' ! i) = dtimes (tokenReserve (tokens st' ! i)) (pairReserve (tokens st' ! i))"
proof -
  let ?t = "(tokens st ! i)\<lparr>
        pairReserve := dplus (pairReserve (tokens st ! i)) amountIn,
        tokenReserve := dminus (tokenReserve (tokens st ! i)) tokenOut,
        k := dtimes (dminus (tokenReserve (tokens st ! i)) tokenOut)
               (dplus (pairReserve (tokens st ! i)) amountIn),
        totalLiquidity := dplus (pairReserve (tokens st ! i)) amountIn\<rparr>"
  have "uncache (tokens st' ! i) = uncache (((tokens st)[i := ?t]) ! i)"
    using commitBuy_effect(4)[OF assms] assms(2) by (intro uncache_nth) simp_all
  then have u: "uncache (tokens st' ! i) = uncache ?t"
    using assms(2) by simp
  from uncache_fields(7)[OF u] uncache_fields(8)[OF u] uncache_fields(10)[OF u]
  show "tokenReserve (tokens st' ! i) = dminus (tokenReserve (tokens st ! i)) tokenOut"
    and "pairReserve (tokens st' ! i) = dplus (pairReserve (tokens st ! i)) amountIn"
    and "k (tokens st' ! i) = dtimes (tokenReserve (tokens st' ! i)) (pairReserve (tokens st' ! i))"
    by simp_all
qed

lemma calculateSwapOutput_default:
  "calculateSwapOutput a x y 0.3 = ddiv (dtimes y (dtimes a 0.997)) (dplus x (dtimes a 0.997))"
  by (simp only: calculateSwapOutput_def Let_def dec_fee)

lemma calculateSwapOutput_fee:
  "f = 0.3 \<Longrightarrow>
     calculateSwapOutput a x y f = ddiv (dtimes y (dtimes a 0.997)) (dplus x (dtimes a 0.997))"
  by (simp only: calculateSwapOutput_default)


text \<open>
  In exact arithmetic the output of a swap with fee is positive and below the output
  reserve, and taking it leaves the product of the reserves at least as large as before.
\<close>

lemma exactProductOut_bounds:
  fixes a rin rout :: real
  assumes "0 < a" "0 < rin" "0 < rout"
  shows "0 < exactProductOut a rin rout" "exactProductOut a rin rout < rout"
    "(rout - exactProductOut a rin rout) * (rin + a) \<ge> rout * rin"
proof -
  define b where "b = a * (1 - 0.003)"
  have b: "0 < b" "b \<le> a" using assms(1) by (simp_all add: b_def)
  have out: "exactProductOut a rin rout = rout * b / (rin + b)"
    by (simp add: exactProductOut_def b_def)
  have pos: "0 < rin + b" using assms b by simp
  show "0 < exactProductOut a rin rout"
    unfolding out using assms b pos by simp
  have "rout * b < rout * (rin + b)" using assms by simp
  then show "exactProductOut a rin rout < rout"
    unfolding out using pos by (simp add: pos_divide_less_eq)
  have rest: "rout - rout * b / (rin + b) = rout * rin / (rin + b)"
    using pos by (simp add: field_simps)
  have "rout * rin * (rin + b) \<le> rout * rin * (rin + a)"
    using assms b by (intro mult_left_mono) simp_all
  then have "rout * rin \<le> rout * rin * (rin + a) / (rin + b)"
    using pos by (simp add: pos_le_divide_eq)
  then show "(rout - exactProductOut a rin rout) * (rin + a) \<ge> rout * rin"
    unfolding out rest by simp
qed


lemma usdPoolState_simps [simp]:
  "tokens (usdPoolState slip) = [pool 1 USD None 1000 1000]"
  "applySlippage (usdPoolState slip) = slip"
  "plsPrice (usdPoolState slip) = 1"
  by (simp_all add: usdPoolState_def)

lemma pool_simps [simp]:
  "tokenReserve (pool i pt pid tr pr) = tr" "pairReserve (pool i pt pid tr pr) = pr"
  "pairType (pool i pt pid tr pr) = pt" "pairedTokenId (pool i pt pid tr pr) = pid"
  "tokenId (pool i pt pid tr pr) = i" "totalSupply (pool i pt pid tr pr) = 1000000"
  "cachedUSDPrice (pool i pt pid tr pr) = 0" "priceLastUpdated (pool i pt pid tr pr) = 0"
  "k (pool i pt pid tr pr) = tr * pr" "plsBalance (pool i pt pid tr pr) = 1000000"
  "lpTotalSupply (pool i pt pid tr pr) = 0"
  by (simp_all add: pool_def newToken_def)









text \<open>
  The claim also fails in realistic mode for an amount far below the pair reserve. A buy
  with \<open>1 / 10 ^ 17\<close> on the pool \<open>(1000, 1000)\<close> is accepted with output \<open>997 / 10 ^ 20\<close>;
  the sum \<open>1000 + 1 / 10 ^ 17\<close> has 21 digits and is rounded back to \<open>1000\<close>, while the
  difference \<open>1000 - 997 / 10 ^ 20\<close> is rounded to \<open>999.99999999999999999\<close>: the product of
  the reserves falls.
\<close>

lemma dust_ops:
  "dtimes (1 / 10 ^ 17) 0.997 = 997 / 10 ^ 20" "dtimes 1000 (997 / 10 ^ 20) = 997 / 10 ^ 17"
  "dplus 1000 (997 / 10 ^ 20) = 1000" "ddiv (997 / 10 ^ 17) 1000 = 997 / 10 ^ 20"
  "dplus 1000 (1 / 10 ^ 17) = 1000"
  "dminus 1000 (997 / 10 ^ 20) = 99999999999999999999 / 10 ^ 17"
proof -
  show "dtimes (1 / 10 ^ 17) 0.997 = 997 / 10 ^ 20"
    unfolding dtimes_def using dround_fixed[of "1 / 10 ^ 17 * 0.997" 997 20] by simp
  show "dtimes 1000 (997 / 10 ^ 20) = 997 / 10 ^ 17"
    unfolding dtimes_def using dround_fixed[of "1000 * (997 / 10 ^ 20)" 997 17] by simp
  have "dround (1000 + 997 / 10 ^ 20) = real_of_int (10 ^ 19) / 10 ^ 16"
    by (rule dround_value) simp_all
  then show "dplus 1000 (997 / 10 ^ 20) = 1000"
    unfolding dplus_def by simp
  show "ddiv (997 / 10 ^ 17) 1000 = 997 / 10 ^ 20"
    unfolding ddiv_def using dround_fixed[of "997 / 10 ^ 17 / 1000" 997 20] by simp
  have "dround (1000 + 1 / 10 ^ 17) = real_of_int (10 ^ 19) / 10 ^ 16"
    by (rule dround_value) simp_all
  then show "dplus 1000 (1 / 10 ^ 17) = 1000"
    unfolding dplus_def by simp
  have "dround (1000 - 997 / 10 ^ 20) = real_of_int 99999999999999999999 / 10 ^ 17"
    by (rule dround_value) simp_all
  then show "dminus 1000 (997 / 10 ^ 20) = 99999999999999999999 / 10 ^ 17"
    unfolding dminus_def by simp
qed

lemma dust_steps:
  "x = 1 / 10 ^ 17 \<Longrightarrow> y = 0.997 \<Longrightarrow> dtimes x y = 997 / 10 ^ 20"
  "x = 997 / 10 ^ 20 \<Longrightarrow> dtimes 1000 x = 997 / 10 ^ 17"
  "x = 997 / 10 ^ 20 \<Longrightarrow> dplus 1000 x = 1000"
  "x = 997 / 10 ^ 17 \<Longrightarrow> ddiv x 1000 = 997 / 10 ^ 20"
  "x = 1 / 10 ^ 17 \<Longrightarrow> dplus 1000 x = 1000"
  "x = 997 / 10 ^ 20 \<Longrightarrow> dminus 1000 x = 99999999999999999999 / 10 ^ 17"
  by (simp_all only: dust_ops)

lemma executeBuy_dust_lowers_product:
  "applySlippage (usdPoolState True) \<and>
   \<not> isl (executeBuy 5000 (usdPoolState True) 0 (1 / 10 ^ 17)) \<and>
   tokensReceived (fst (projr (executeBuy 5000 (usdPoolState True) 0 (1 / 10 ^ 17)))) = 997 / 10 ^ 20 \<and>
   tokenReserve (tokens (snd (projr (executeBuy 5000 (usdPoolState True) 0 (1 / 10 ^ 17)))) ! 0)
     = 99999999999999999999 / 10 ^ 17 \<and>
   pairReserve (tokens (snd (projr (executeBuy 5000 (usdPoolState True) 0 (1 / 10 ^ 17)))) ! 0) = 1000 \<and>
   tokenReserve (tokens (snd (projr (executeBuy 5000 (usdPoolState True) 0 (1 / 10 ^ 17)))) ! 0)
     * pairReserve (tokens (snd (projr (executeBuy 5000 (usdPoolState True) 0 (1 / 10 ^ 17)))) ! 0)
   < 1000 * 1000"
proof -
  let ?imp = "calculatePriceImpact (tokens (usdPoolState True) ! 0) (1 / 10 ^ 17) (997 / 10 ^ 20)"
  have e: "executeBuy 5000 (usdPoolState True) 0 (1 / 10 ^ 17)
      = Inr (commitBuy 5000 (usdPoolState True) 0 (1 / 10 ^ 17) (997 / 10 ^ 20) ?imp)"
    by (simp add: executeBuy_def calculateSwapOutput_fee dust_steps Let_def)
  have c: "commitBuy 5000 (usdPoolState True) 0 (1 / 10 ^ 17) (997 / 10 ^ 20) ?imp =
      (fst (projr (executeBuy 5000 (usdPoolState True) 0 (1 / 10 ^ 17))),
       snd (projr (executeBuy 5000 (usdPoolState True) 0 (1 / 10 ^ 17))))"
    unfolding e by simp
  have acc: "\<not> isl (executeBuy 5000 (usdPoolState True) 0 (1 / 10 ^ 17))"
    unfolding e by simp
  have len: "0 < length (tokens (usdPoolState True))"
    by simp
  from commitBuy_effect(1)[OF c len] commitBuy_token(1,2)[OF c len] acc show ?thesis
    by (simp add: dust_steps)
qed











section \<open>Route execution and route search\<close>








lemma routingState_paths: "findAllPaths (routingState tr pr) (Suc 0) None = [[0, Suc 0]]"
  by (simp add: findAllPaths_def routingState_def findToken_def truthy_def Let_def)

text \<open>
  \<^verbatim>\<open>findBestPath\<close> returns \<^verbatim>\<open>null\<close> when no path reaches the target and throws on the
  initialisation of \<^verbatim>\<open>bestOutput\<close> otherwise: it never returns a route.
\<close>

lemma findBestPath_outcome:
  "findBestPath st targetToken amountIn =
     (if findAllPaths st targetToken None = [] then Inr None else Inl TypeError)"
  by (simp add: findBestPath_def decimalZero_def Let_def)

text \<open>
  Claim C7. With X an anchor pool with reserves \<open>(1000, 1000)\<close> and Y paired with X,
  \<^verbatim>\<open>findAllPaths\<close> finds the one path to Y, through X, but \<^verbatim>\<open>findBestPath(Y, 100)\<close> does
  not return a route: it throws a \<^verbatim>\<open>TypeError\<close> before any path is evaluated. This is so
  whether the reserves \<open>(1000, 500)\<close> of Y are read as token reserve 1000 and pair reserve
  500 or the other way round.
\<close>

theorem findBestPath_throws:
  "findAllPaths (routingState 1000 500) 1 None = [[0, 1]] \<and>
   findBestPath (routingState 1000 500) 1 100 = Inl TypeError \<and>
   findAllPaths (routingState 500 1000) 1 None = [[0, 1]] \<and>
   findBestPath (routingState 500 1000) 1 100 = Inl TypeError"
  by (simp add: findBestPath_outcome routingState_paths)

section \<open>The system-wide price update\<close>

lemma upt2: "[0..<Suc (Suc 0)] = [0, Suc 0]"
  by (simp add: upt_conv_Cons)

lemma setCache_fields [simp]:
  "tokenId (setCache p now t) = tokenId t" "pairType (setCache p now t) = pairType t"
  "pairedTokenId (setCache p now t) = pairedTokenId t"
  "tokenReserve (setCache p now t) = tokenReserve t" "pairReserve (setCache p now t) = pairReserve t"
  "cachedUSDPrice (setCache p now t) = p" "priceLastUpdated (setCache p now t) = now"
  by (simp_all add: setCache_def)

lemma wplsChain_fields [simp]:
  "tokenId wplsParent = 1" "pairType wplsParent = WPLS" "tokenReserve wplsParent = 1000"
  "pairReserve wplsParent = 1000" "cachedUSDPrice wplsParent = 0" "priceLastUpdated wplsParent = 0"
  "tokenId tokenChild = 2" "pairType tokenChild = TOKEN" "pairedTokenId tokenChild = Some 1"
  "tokenReserve tokenChild = 1000" "pairReserve tokenChild = 500"
  "cachedUSDPrice tokenChild = 0" "priceLastUpdated tokenChild = 0"
  by (simp_all add: wplsParent_def tokenChild_def)

lemma priceLoop_not_updated [simp]: "priceLoop n now pls ts visited False = (ts, visited)"
  by (cases n) simp_all

lemma wplsChain_parent:
  "calculateTokenPriceUSD 5000 1 [wplsParent, tokenChild] {} 0
     = (1, [setCache 1 5000 wplsParent, tokenChild], {1}, 1, False)"
  by (simp add: calculateTokenPriceUSD.simps)

lemma wplsChain_child:
  "calculateTokenPriceUSD 5000 1 [setCache 1 5000 wplsParent, tokenChild] {1} (Suc 0)
     = (0, [setCache 1 5000 wplsParent, setCache 0 5000 tokenChild], {2, 1}, 2, True)"
  by (simp add: calculateTokenPriceUSD.simps findToken_def)

lemma updateAllTokenPrices_wplsChain:
  "tokens (updateAllTokenPrices 5000 wplsChainState)
     = [setCache 1 5000 wplsParent, setCache 0 5000 tokenChild]"
proof -
  have ten: "(10::nat) = Suc 9" by simp
  have w: "wplsPass 5000 1 (filter (\<lambda>i. pairType ([wplsParent, tokenChild] ! i) = WPLS)
             [0..<length [wplsParent, tokenChild]]) [wplsParent, tokenChild] {}
           = ([setCache 1 5000 wplsParent, tokenChild], {1})"
    by (simp add: upt2 wplsChain_parent[simplified])
  have t: "tokenPass 5000 1 (filter (\<lambda>i. pairType ([setCache 1 5000 wplsParent, tokenChild] ! i) = TOKEN)
             [0..<length [setCache 1 5000 wplsParent, tokenChild]])
             [setCache 1 5000 wplsParent, tokenChild] {1} False
           = ([setCache 1 5000 wplsParent, setCache 0 5000 tokenChild], {2, 1}, False)"
    by (simp add: upt2 wplsChain_child[simplified])
  have l: "priceLoop 10 5000 1 [setCache 1 5000 wplsParent, tokenChild] {1} True
           = ([setCache 1 5000 wplsParent, setCache 0 5000 tokenChild], {2, 1})"
    unfolding ten priceLoop.simps t by simp
  show ?thesis
    unfolding updateAllTokenPrices_def
    by (simp add: wplsChainState_def w[simplified] l[simplified])
qed

text \<open>
  Claim C3 fails on the code. After the pass on the chain of a WPLS-paired pool and a pool
  paired with it, the child's cached price is 0, while its pool ratio times the parent's
  cached price is \<open>1/2\<close>: the parent's id is already in the shared \<^verbatim>\<open>visited\<close> set when
  the child asks for the parent's price, so the circular-dependency branch answers 0.
\<close>

theorem updateAllTokenPrices_zeroes_child:
  "cachedUSDPrice (tokens (updateAllTokenPrices 5000 wplsChainState) ! 1) = 0 \<and>
   cachedUSDPrice (tokens (updateAllTokenPrices 5000 wplsChainState) ! 0) = 1 \<and>
   pairReserve (tokens (updateAllTokenPrices 5000 wplsChainState) ! 1)
     / tokenReserve (tokens (updateAllTokenPrices 5000 wplsChainState) ! 1)
     * cachedUSDPrice (tokens (updateAllTokenPrices 5000 wplsChainState) ! 0) = 1 / 2"
  unfolding updateAllTokenPrices_wplsChain by simp

section \<open>Liquidity and available supply\<close>

lemma locked_uncache:
  "foldl (\<lambda>lockedAmount otherToken.
              if tokenId otherToken \<noteq> x \<and> pairType otherToken = TOKEN \<and>
                 pairedTokenId otherToken = Some x
              then lockedAmount + pairReserve otherToken else lockedAmount) a (map uncache ts)
   = foldl (\<lambda>lockedAmount otherToken.
              if tokenId otherToken \<noteq> x \<and> pairType otherToken = TOKEN \<and>
                 pairedTokenId otherToken = Some x
              then lockedAmount + pairReserve otherToken else lockedAmount) a ts"
  by (induction ts arbitrary: a) (simp_all add: uncache_def)

lemma uncache_sel [simp]:
  "tokenId (uncache t) = tokenId t" "totalSupply (uncache t) = totalSupply t"
  "pairType (uncache t) = pairType t" "pairedTokenId (uncache t) = pairedTokenId t"
  "tokenReserve (uncache t) = tokenReserve t" "pairReserve (uncache t) = pairReserve t"
  "lpTotalSupply (uncache t) = lpTotalSupply t" "k (uncache t) = k t"
  "plsBalance (uncache t) = plsBalance t" "totalLiquidity (uncache t) = totalLiquidity t"
  by (simp_all add: uncache_def)

lemma getAvailableSupply_uncache:
  "i < length ts \<Longrightarrow> getAvailableSupply (map uncache ts) i = getAvailableSupply ts i"
  by (simp add: getAvailableSupply_def getTokensLockedInOtherPools_def locked_uncache)

lemma getAvailableSupply_cong:
  assumes "map uncache a = map uncache b" "i < length b"
  shows "getAvailableSupply a i = getAvailableSupply b i"
proof -
  have "length a = length b" using assms(1) by (rule map_eq_imp_length_eq)
  then show ?thesis
    using getAvailableSupply_uncache[of i a] getAvailableSupply_uncache[of i b] assms by simp
qed

lemma mintLiquidity_frame:
  "map uncache (tokens (mintLiquidity now st i tokenToAdd pairToAdd this))
   = map uncache ((tokens st)[i := this\<lparr>tokenReserve := tokenReserve this + tokenToAdd,
        pairReserve := pairReserve this + pairToAdd,
        lpTotalSupply := lpTotalSupply this +
          (if pairReserve this = 0 \<and> tokenReserve this = 0 then sqrt (tokenToAdd * pairToAdd)
           else lpTotalSupply this * (tokenToAdd / tokenReserve this)),
        k := (tokenReserve this + tokenToAdd) * (pairReserve this + pairToAdd),
        totalLiquidity := pairReserve this + pairToAdd\<rparr>])"
proof -
  have inval: "\<And>ts. map uncache (ts[i := (ts ! i)\<lparr>priceLastUpdated := 0\<rparr>]) = map uncache ts"
    by (rule map_uncache_update) (simp add: uncache_def)
  show ?thesis
    by (simp add: mintLiquidity_def Let_def inval)
qed

lemma newToken_fields [simp]:
  "tokenId (newToken i) = i" "totalSupply (newToken i) = 1000000" "pairType (newToken i) = USD"
  "pairedTokenId (newToken i) = None" "tokenReserve (newToken i) = 0" "pairReserve (newToken i) = 0"
  "plsBalance (newToken i) = 1000000" "lpTotalSupply (newToken i) = 0"
  by (simp_all add: newToken_def)

lemma map_uncache_nth:
  assumes "map uncache ts = us" "i < length us"
  shows "uncache (ts ! i) = us ! i"
proof -
  have "length ts = length us" using assms(1) by auto
  then show ?thesis using assms by (metis nth_map)
qed

text \<open>
  Claim C4 fails on the code. Token 2, paired with token 1, takes 600000 units of token 1
  as its pair reserve; token 1 then adds 500000 of its own units to its own pool. Both
  additions are accepted, since \<^verbatim>\<open>addLiquidity\<close> compares the token amount with
  \<^verbatim>\<open>totalSupply - tokenReserve\<close> and not with \<^verbatim>\<open>getAvailableSupply()\<close>; afterwards the
  available supply of token 1 is \<open>- 100000\<close>.
\<close>

theorem addLiquidity_overallocates:
  "getAvailableSupply (tokens supplyState) 0 \<ge> 0 \<and>
   getAvailableSupply (tokens supplyState) 1 \<ge> 0 \<and>
   \<not> isl (addLiquidity 5000 supplyState 1 100 600000) \<and>
   \<not> isl (addLiquidity 5000 (projr (addLiquidity 5000 supplyState 1 100 600000)) 0 500000 500000) \<and>
   getAvailableSupply (tokens (projr (addLiquidity 5000
       (projr (addLiquidity 5000 supplyState 1 100 600000)) 0 500000 500000))) 0 = - 100000"
proof -
  let ?A = "newToken 1"
  let ?B = "(newToken 2)\<lparr>pairType := TOKEN, pairedTokenId := Some 1\<rparr>"
  let ?B' = "?B\<lparr>tokenReserve := 100, pairReserve := 600000, lpTotalSupply := sqrt (100 * 600000),
       k := 100 * 600000, totalLiquidity := 600000\<rparr>"
  let ?A' = "?A\<lparr>tokenReserve := 500000, pairReserve := 500000, lpTotalSupply := sqrt (500000 * 500000),
       k := 500000 * 500000, totalLiquidity := 500000\<rparr>"
  define st1 where "st1 = mintLiquidity 5000 supplyState 1 100 600000 ?B"
  define st2 where "st2 = mintLiquidity 5000 st1 0 500000 500000 (tokens st1 ! 0)"
  have ts0: "tokens supplyState = [?A, ?B]"
    by (simp add: supplyState_def)
  have a0: "getAvailableSupply [?A, ?B] 0 = 1000000" "getAvailableSupply [?A, ?B] 1 = 1000000"
    by (simp_all add: getAvailableSupply_def getTokensLockedInOtherPools_def)
  have e1: "addLiquidity 5000 supplyState 1 100 600000 = Inr st1"
    unfolding addLiquidity_def ts0 st1_def
    by (simp add: findToken_def a0[simplified])
  have m1: "map uncache (tokens st1) = [uncache ?A, uncache ?B']"
    unfolding st1_def mintLiquidity_frame ts0 by simp
  have "uncache (tokens st1 ! 0) = uncache ?A"
    using map_uncache_nth[OF m1, of 0] by simp
  note f = uncache_fields[OF this]
  have e2: "addLiquidity 5000 st1 0 500000 500000 = Inr st2"
    unfolding addLiquidity_def st2_def
    by (simp add: f)
  have "map uncache (tokens st2) = (map uncache (tokens st1))[0 := uncache ((tokens st1 ! 0)\<lparr>
        tokenReserve := 500000, pairReserve := 500000,
        lpTotalSupply := lpTotalSupply (tokens st1 ! 0) + sqrt (500000 * 500000),
        k := 500000 * 500000, totalLiquidity := 500000\<rparr>)]"
    unfolding st2_def mintLiquidity_frame by (simp add: f map_update)
  then have m2: "map uncache (tokens st2) = [uncache ((tokens st1 ! 0)\<lparr>
        tokenReserve := 500000, pairReserve := 500000,
        lpTotalSupply := lpTotalSupply (tokens st1 ! 0) + sqrt (500000 * 500000),
        k := 500000 * 500000, totalLiquidity := 500000\<rparr>), uncache ?B']"
    unfolding m1 by simp
  have "length (map uncache (tokens st2)) = 2"
    unfolding m2 by simp
  then have len2: "length (tokens st2) = 2"
    by simp
  have "getAvailableSupply (tokens st2) 0 = getAvailableSupply (map uncache (tokens st2)) 0"
    using getAvailableSupply_uncache[of 0 "tokens st2"] len2 by simp
  also have "\<dots> = - 100000"
    unfolding m2 by (simp add: getAvailableSupply_def getTokensLockedInOtherPools_def f)
  finally have r: "getAvailableSupply (tokens st2) 0 = - 100000" .
  show ?thesis
    unfolding e1 e2 using r a0 by (simp add: ts0 e1 e2)
qed

section \<open>Properties of the capital analysis\<close>

declare calculateLiquidityDepth.simps [simp del]
declare calculateRealCapitalBacking.simps [simp del]

lemma cacheOnly_refl [simp]: "cacheOnly st st"
  by (simp add: cacheOnly_def)

lemma cacheOnly_trans: "cacheOnly a b \<Longrightarrow> cacheOnly b c \<Longrightarrow> cacheOnly a c"
  by (simp add: cacheOnly_def)

lemma calculateDerivedCapital_frame: "cacheOnly st (snd (calculateDerivedCapital now st i))"
  by (auto simp: calculateDerivedCapital_def Let_def cacheOnly_def price_frame'
        split: option.splits capital_mode.splits prod.splits dest: price_frame)

lemma breakdownLoop_frame:
  "cacheOnly st (snd (snd (snd (snd (breakdownLoop now is st rc dc td tc)))))"
proof (induction "is" arbitrary: st rc dc td tc)
  case Nil
  show ?case by simp
next
  case (Cons i rest)
  obtain derived st1 where d: "calculateDerivedCapital now st i = (derived, st1)"
    by (cases "calculateDerivedCapital now st i") simp
  have c1: "cacheOnly st st1"
    using calculateDerivedCapital_frame[of st now i] d by simp
  show ?case
    using cacheOnly_trans[OF c1 Cons.IH]
    by (cases "calculateLiquidityDepth (tokens st1) {} i") (simp_all add: d Let_def)
qed

lemma getCapitalBreakdown_frame: "cacheOnly st (snd (getCapitalBreakdown now st))"
  using breakdownLoop_frame[of st now "[0..<length (tokens st)]" 0 0 0 0]
  by (auto simp add: getCapitalBreakdown_def split: prod.splits)

lemma impactLoop_frame: "cacheOnly st (snd (impactLoop now m is st))"
proof (induction "is" arbitrary: st)
  case Nil
  show ?case by simp
next
  case (Cons i rest)
  obtain derived st1 where d: "calculateDerivedCapital now st i = (derived, st1)"
    by (cases "calculateDerivedCapital now st i") simp
  have c1: "cacheOnly st st1"
    using calculateDerivedCapital_frame[of st now i] d by simp
  show ?case
    using cacheOnly_trans[OF c1 Cons.IH[of st1]]
    by (auto simp add: d Let_def split: prod.splits)
qed

lemma calculateCascadeImpact_frame: "cacheOnly st (snd (calculateCascadeImpact now st pct))"
proof -
  obtain b st1 where g: "getCapitalBreakdown now st = (b, st1)"
    by (cases "getCapitalBreakdown now st") simp
  have c1: "cacheOnly st st1"
    using getCapitalBreakdown_frame[of st now] g by simp
  show ?thesis
    using cacheOnly_trans[OF c1 impactLoop_frame[of st1 now "1 + pct / 100" "[0..<length (tokens st1)]"]]
    by (auto simp add: calculateCascadeImpact_def g Let_def split: prod.splits)
qed

lemma cacheOnly_fields:
  assumes "cacheOnly st st'"
  shows "map tokenReserve (tokens st') = map tokenReserve (tokens st)"
    "map pairReserve (tokens st') = map pairReserve (tokens st)"
    "map k (tokens st') = map k (tokens st)"
    "map lpTotalSupply (tokens st') = map lpTotalSupply (tokens st)"
    "map tokenId (tokens st') = map tokenId (tokens st)"
    "length (tokens st') = length (tokens st)"
proof -
  have m: "map uncache (tokens st') = map uncache (tokens st)"
    using assms by (simp add: cacheOnly_def)
  have "\<And>f. map (f \<circ> uncache) (tokens st') = map (f \<circ> uncache) (tokens st)"
    using m by (metis map_map)
  from this[of tokenReserve] this[of pairReserve] this[of k] this[of lpTotalSupply] this[of tokenId]
  show "map tokenReserve (tokens st') = map tokenReserve (tokens st)"
    "map pairReserve (tokens st') = map pairReserve (tokens st)"
    "map k (tokens st') = map k (tokens st)"
    "map lpTotalSupply (tokens st') = map lpTotalSupply (tokens st)"
    "map tokenId (tokens st') = map tokenId (tokens st)"
    by (simp_all add: comp_def)
  show "length (tokens st') = length (tokens st)"
    using m by (rule map_eq_imp_length_eq)
qed

text \<open>
  Claim C10. \<^verbatim>\<open>getCapitalBreakdown\<close> and \<^verbatim>\<open>calculateCascadeImpact\<close> leave every pool's
  reserves, \<open>k\<close> and LP supply and the PLS price as they were (they may refresh price
  caches, nothing else), and the shocked PLS price is only reported in the result.
\<close>

theorem capital_analysis_read_only:
  "map tokenReserve (tokens (snd (getCapitalBreakdown now st))) = map tokenReserve (tokens st) \<and>
   map pairReserve (tokens (snd (getCapitalBreakdown now st))) = map pairReserve (tokens st) \<and>
   map k (tokens (snd (getCapitalBreakdown now st))) = map k (tokens st) \<and>
   map lpTotalSupply (tokens (snd (getCapitalBreakdown now st))) = map lpTotalSupply (tokens st) \<and>
   plsPrice (snd (getCapitalBreakdown now st)) = plsPrice st \<and>
   map tokenReserve (tokens (snd (calculateCascadeImpact now st pct))) = map tokenReserve (tokens st) \<and>
   map pairReserve (tokens (snd (calculateCascadeImpact now st pct))) = map pairReserve (tokens st) \<and>
   map k (tokens (snd (calculateCascadeImpact now st pct))) = map k (tokens st) \<and>
   map lpTotalSupply (tokens (snd (calculateCascadeImpact now st pct))) = map lpTotalSupply (tokens st) \<and>
   plsPrice (snd (calculateCascadeImpact now st pct)) = plsPrice st \<and>
   newPlsPrice (fst (calculateCascadeImpact now st pct)) = plsPrice st * (1 + pct / 100)"
proof -
  note g = getCapitalBreakdown_frame[of st now]
  note c = calculateCascadeImpact_frame[of st now pct]
  have p: "plsPrice (snd (getCapitalBreakdown now st)) = plsPrice st"
    "plsPrice (snd (calculateCascadeImpact now st pct)) = plsPrice st"
    using g c by (simp_all add: cacheOnly_def)
  have n: "newPlsPrice (fst (calculateCascadeImpact now st pct)) = plsPrice st * (1 + pct / 100)"
    using p(1) by (auto simp add: calculateCascadeImpact_def Let_def split: prod.splits)
  from cacheOnly_fields(1-4)[OF g] cacheOnly_fields(1-4)[OF c] p n show ?thesis
    by simp
qed

















lemma chain_fields [simp]:
  "tokenId chainA = 1" "pairType chainA = USD" "pairedTokenId chainA = None"
  "tokenReserve chainA = 1000" "pairReserve chainA = 1000"
  "cachedUSDPrice chainA = 0" "priceLastUpdated chainA = 0"
  "tokenId chainB = 2" "pairType chainB = TOKEN" "pairedTokenId chainB = Some 1"
  "tokenReserve chainB = 1000" "pairReserve chainB = 500"
  "cachedUSDPrice chainB = 0" "priceLastUpdated chainB = 0"
  "tokenId chainC = 3" "pairType chainC = TOKEN" "pairedTokenId chainC = Some 2"
  "tokenReserve chainC = 1000" "pairReserve chainC = 200"
  "cachedUSDPrice chainC = 0" "priceLastUpdated chainC = 0"
  by (simp_all add: chainA_def chainB_def chainC_def)

lemma marketState_fields [simp]:
  "tokens (marketState ts) = ts" "plsPrice (marketState ts) = 1"
  "capitalCalculationMode (marketState ts) = Market"
  "(marketState ts)\<lparr>tokens := ts'\<rparr> = marketState ts'"
  by (simp_all add: marketState_def)














end
